theory Spec2Isabelle
  imports Main "HOL-Library.Sublist"
begin

section \<open>The protocol client (package gosyntect)\<close>

subsection \<open>Data model\<close>

text \<open>
  Go's \<^verbatim>\<open>string\<close> is a sequence of bytes and \<^verbatim>\<open>len\<close> counts bytes, as \<^typ>\<open>string\<close>
  and \<^const>\<open>length\<close> do here. Go's \<^verbatim>\<open>int\<close> is modelled by \<^typ>\<open>int\<close>; the values a
  64-bit \<^verbatim>\<open>int\<close> can hold are those of \<open>is_int\<close> below, and the one addition the
  program performs on service-provided numbers is wrapped explicitly (\<open>int_add\<close>).
\<close>

record Query =
  Extension :: string
  Filepath :: string
  Theme :: string
  Scopify :: bool
  Code :: string

record ScopifiedRegion =
  Offset :: int
  Length :: int
  Scopes :: "int list"

text \<open>The public response; \<^verbatim>\<open>map[int]string\<close> is a partial map.\<close>

record Response =
  Data :: string
  Plaintext :: bool
  DetectedLanguage :: string
  ScopifiedScopeNames :: "int \<rightharpoonup> string"
  ScopifiedRegions :: "ScopifiedRegion list"

text \<open>The wire record \<^verbatim>\<open>response\<close>: all success fields plus the two error fields.\<close>

record response =
  Data :: string
  Plaintext :: bool
  DetectedLanguage :: string
  ScopifiedScopeNames :: "string list"
  ScopifiedRegions :: "ScopifiedRegion list"
  Error :: string
  Code :: string

record Client =
  syntectServer :: string

subsection \<open>Errors\<close>

text \<open>
  The three exported sentinel errors are constructors of their own, so that they are
  told apart from any other error with the same text. \<open>errors_Wrap err msg\<close> is
  \<^verbatim>\<open>errors.Wrap(err, msg)\<close> of github.com/pkg/errors. \<open>External\<close> is an error value made
  by a collaborator (encoding/json, net/url, net/http, io/ioutil): only its text is kept.
\<close>

datatype error =
    ErrInvalidTheme
  | ErrRequestTooLarge
  | ErrPanic
  | errors_New string
  | fmt_Errorf string
  | errors_Wrap error string
  | External string

text \<open>The method \<^verbatim>\<open>Error()\<close>: the text of an error. A wrapped error reads
  \<^verbatim>\<open>msg + ": " + cause.Error()\<close>.\<close>

fun Error_text :: "error \<Rightarrow> string" where
  "Error_text ErrInvalidTheme = ''invalid theme''"
| "Error_text ErrRequestTooLarge = ''request too large''"
| "Error_text ErrPanic = ''syntect panic while highlighting''"
| "Error_text (errors_New msg) = msg"
| "Error_text (fmt_Errorf msg) = msg"
| "Error_text (errors_Wrap err msg) = msg @ '': '' @ Error_text err"
| "Error_text (External msg) = msg"

subsection \<open>Collaborators\<close>

text \<open>
  An HTTP request as the client builds it (method, target URL, headers, body) and the
  part of an HTTP response the client reads. The request context and the tracing span
  only travel with the request and are left out.
\<close>

record http_Request =
  Method :: string
  URL :: string
  Header :: "string \<rightharpoonup> string"
  Body :: string

record http_Response =
  StatusCode :: int
  Body :: string

text \<open>
  Library code the program calls and that is not part of the repository is a field of
  the environment: the JSON encoder and decoder, the URL parser used by
  \<^verbatim>\<open>http.NewRequest\<close> (its error, or the URL as package net/url writes the parsed URL
  back, escaped and normalised), the HTTP transport \<^verbatim>\<open>client.Do\<close> (which also fails
  when the context is cancelled), the verb \<^verbatim>\<open>%q\<close> of package fmt, and
  \<^verbatim>\<open>ioutil.ReadFile\<close>.
\<close>

record env =
  json_Marshal :: "Query \<Rightarrow> error + string"
  url_Parse :: "string \<Rightarrow> error + string"
  client_Do :: "http_Request \<Rightarrow> error + http_Response"
  json_Decode :: "string \<Rightarrow> error + response"
  fmt_q :: "string \<Rightarrow> string"
  ioutil_ReadFile :: "string \<Rightarrow> error + string"

definition http_StatusBadRequest :: int where
  "http_StatusBadRequest = 400"

text \<open>\<^verbatim>\<open>http.NewRequest(method, url, body)\<close>: fails when the URL does not parse, and
  otherwise returns a request with that method and body, no header, and the parsed URL
  as its target.\<close>

definition http_NewRequest :: "env \<Rightarrow> string \<Rightarrow> string \<Rightarrow> string \<Rightarrow> error + http_Request" where
  "http_NewRequest E method u body =
     (case url_Parse E u of
        Inl err \<Rightarrow> Inl err
      | Inr parsed \<Rightarrow>
          Inr \<lparr>Method = method, URL = parsed, Header = Map.empty, http_Request.Body = body\<rparr>)"

subsection \<open>Package strings\<close>

definition strings_HasPrefix :: "string \<Rightarrow> string \<Rightarrow> bool" where
  "strings_HasPrefix s pre = (length pre \<le> length s \<and> take (length pre) s = pre)"

definition strings_HasSuffix :: "string \<Rightarrow> string \<Rightarrow> bool" where
  "strings_HasSuffix s suf = (length suf \<le> length s \<and> drop (length s - length suf) s = suf)"

definition strings_TrimSuffix :: "string \<Rightarrow> string \<Rightarrow> string" where
  "strings_TrimSuffix s suf =
     (if strings_HasSuffix s suf then take (length s - length suf) s else s)"

fun strings_Join :: "string list \<Rightarrow> string \<Rightarrow> string" where
  "strings_Join [] sep = []"
| "strings_Join [a] sep = a"
| "strings_Join (a # b # rest) sep = a @ sep @ strings_Join (b # rest) sep"

subsection \<open>The client\<close>

text \<open>\<^verbatim>\<open>toSuccessResponse\<close>: the loop \<^verbatim>\<open>for index, scopeName := range r.ScopifiedScopeNames\<close>
  stores each name under its position, starting from the empty map.\<close>

fun range_names :: "int \<Rightarrow> string list \<Rightarrow> (int \<rightharpoonup> string) \<Rightarrow> (int \<rightharpoonup> string)" where
  "range_names index [] m = m"
| "range_names index (scopeName # rest) m = range_names (index + 1) rest (m(index \<mapsto> scopeName))"

definition toSuccessResponse :: "response \<Rightarrow> Response" where
  "toSuccessResponse r =
     \<lparr>Response.Data = Data r,
      Response.Plaintext = Plaintext r,
      Response.DetectedLanguage = DetectedLanguage r,
      Response.ScopifiedScopeNames = range_names 0 (ScopifiedScopeNames r) Map.empty,
      Response.ScopifiedRegions = ScopifiedRegions r\<rparr>"

definition url :: "Client \<Rightarrow> string \<Rightarrow> string" where
  "url c path = syntectServer c @ path"

definition New :: "string \<Rightarrow> Client" where
  "New server = \<lparr>syntectServer = strings_TrimSuffix server ''/''\<rparr>"

text \<open>The first part of \<^verbatim>\<open>Highlight\<close> ("Build the request"): the query is encoded and
  posted to \<^verbatim>\<open>c.url("/")\<close> with the JSON content type.\<close>

definition Highlight_request :: "env \<Rightarrow> Client \<Rightarrow> Query \<Rightarrow> error + http_Request" where
  "Highlight_request E c q =
     (case json_Marshal E q of
        Inl err \<Rightarrow> Inl (errors_Wrap err ''encoding query'')
      | Inr jsonQuery \<Rightarrow>
          (case http_NewRequest E ''POST'' (url c ''/'') jsonQuery of
             Inl err \<Rightarrow> Inl (errors_Wrap err ''building request'')
           | Inr req \<Rightarrow>
               Inr (req\<lparr>Header := (Header req)(''Content-Type'' \<mapsto> ''application/json'')\<rparr>)))"

text \<open>\<^verbatim>\<open>Highlight\<close>: perform the request, then the status check, the decoding and the
  switch on the error code, in the order of the source.\<close>

definition Highlight :: "env \<Rightarrow> Client \<Rightarrow> Query \<Rightarrow> error + Response" where
  "Highlight E c q =
     (case Highlight_request E c q of
        Inl err \<Rightarrow> Inl err
      | Inr req \<Rightarrow>
          (case client_Do E req of
             Inl err \<Rightarrow> Inl (errors_Wrap err (''making request to '' @ url c ''/''))
           | Inr resp \<Rightarrow>
               if StatusCode resp = http_StatusBadRequest then Inl ErrRequestTooLarge
               else
                 (case json_Decode E (http_Response.Body resp) of
                    Inl err \<Rightarrow>
                      Inl (errors_Wrap err (''decoding JSON response from '' @ url c ''/''))
                  | Inr r \<Rightarrow>
                      if Error r \<noteq> [] then
                        Inl (errors_Wrap
                              (if Code r = ''invalid_theme'' then ErrInvalidTheme
                               else if Code r = ''resource_not_found'' then
                                 errors_New ''gosyntect internal error: resource_not_found''
                               else if Code r = ''panic'' then ErrPanic
                               else fmt_Errorf (''unknown error='' @ fmt_q E (Error r) @
                                                '' code='' @ fmt_q E (Code r)))
                              (syntectServer c))
                      else Inr (toSuccessResponse r))))"

section \<open>The command-line tool (cmd/gosyntect)\<close>

subsection \<open>Go's integers, slices and maps\<close>

text \<open>The values of a 64-bit \<^verbatim>\<open>int\<close>, and its addition, which wraps around.\<close>

definition is_int :: "int \<Rightarrow> bool" where
  "is_int x = (- (2 ^ 63) \<le> x \<and> x < 2 ^ 63)"

definition int_add :: "int \<Rightarrow> int \<Rightarrow> int" where
  "int_add a b = signed_take_bit 63 (a + b)"

text \<open>The slice expression \<^verbatim>\<open>s[lo:hi]\<close> on a string: the run-time check
  \<^verbatim>\<open>0 <= lo <= hi <= len(s)\<close> panics when it fails (\<open>None\<close>).\<close>

definition slice :: "string \<Rightarrow> int \<Rightarrow> int \<Rightarrow> string option" where
  "slice s lo hi =
     (if 0 \<le> lo \<and> lo \<le> hi \<and> hi \<le> int (length s)
      then Some (take (nat (hi - lo)) (drop (nat lo) s))
      else None)"

text \<open>The index expression \<^verbatim>\<open>m[k]\<close> on a \<^verbatim>\<open>map[int]string\<close>: a missing key reads as the
  empty string.\<close>

definition map_index :: "(int \<rightharpoonup> string) \<Rightarrow> int \<Rightarrow> string" where
  "map_index m k = (case m k of None \<Rightarrow> [] | Some v \<Rightarrow> v)"

text \<open>\<^verbatim>\<open>flag.Arg(i)\<close>: the i-th positional argument, or the empty string.\<close>

definition flag_Arg :: "string list \<Rightarrow> nat \<Rightarrow> string" where
  "flag_Arg args i = (if i < length args then args ! i else [])"

text \<open>\<^verbatim>\<open>filepath.Base\<close> with the separator \<^verbatim>\<open>/\<close>: trailing separators are dropped and the
  last element is returned; the empty path gives \<^verbatim>\<open>.\<close> and a path of separators \<^verbatim>\<open>/\<close>.\<close>

definition filepath_Base :: "string \<Rightarrow> string" where
  "filepath_Base path =
     (if path = [] then ''.''
      else
        let stripped = rev (dropWhile (\<lambda>ch. ch = CHR ''/'') (rev path));
            base = rev (takeWhile (\<lambda>ch. ch \<noteq> CHR ''/'') (rev stripped))
        in if base = [] then ''/'' else base)"

subsection \<open>What a run of the tool leaves behind\<close>

text \<open>
  Standard output is a string. Standard error is a list of diagnostics: the listing
  written by \<^verbatim>\<open>flag.PrintDefaults\<close>, a line written by package log (prefix
  \<^verbatim>\<open>gosyntect: \<close>, then the text), or the report of a run-time panic. A run-time panic
  ends the process with exit code 2, \<^verbatim>\<open>log.Fatal\<close> with exit code 1.
\<close>

datatype diagnostic = flag_PrintDefaults | log_Print string | runtime_panic

record outcome =
  stdout :: string
  stderr :: "diagnostic list"
  exit_code :: nat

definition log_Fatal :: "string \<Rightarrow> outcome" where
  "log_Fatal text = \<lparr>stdout = [], stderr = [log_Print text], exit_code = 1\<rparr>"

subsection \<open>main\<close>

text \<open>
  The loop over \<^verbatim>\<open>resp.ScopifiedRegions\<close>; \<open>out\<close> is what has been printed so far. The
  inner loop appends \<^verbatim>\<open>resp.ScopifiedScopeNames[index]\<close> for each index of the region,
  and the line is printed by \<^verbatim>\<open>fmt.Printf("%q - %s\n", ...)\<close>.
\<close>

fun print_regions :: "env \<Rightarrow> Query \<Rightarrow> Response \<Rightarrow> ScopifiedRegion list \<Rightarrow> string \<Rightarrow> outcome" where
  "print_regions E query resp [] out = \<lparr>stdout = out, stderr = [], exit_code = 0\<rparr>"
| "print_regions E query resp (region # rest) out =
     (let scopes = map (map_index (Response.ScopifiedScopeNames resp)) (Scopes region) in
      case slice (Query.Code query) (Offset region) (int_add (Offset region) (Length region)) of
        None \<Rightarrow> \<lparr>stdout = out, stderr = [runtime_panic], exit_code = 2\<rparr>
      | Some sub \<Rightarrow>
          print_regions E query resp rest
            (out @ fmt_q E sub @ '' - '' @ strings_Join scopes '' '' @ [CHR 0x0A]))"

text \<open>
  The first part of \<^verbatim>\<open>main\<close>, after \<^verbatim>\<open>flag.Parse\<close> has set the flag and the positional
  arguments: the checks of the arguments and the reading of the file. It ends the
  process (\<open>Inl\<close>) or yields the server and the query, whose path is reduced to its base
  name.
\<close>

definition main_query :: "env \<Rightarrow> bool \<Rightarrow> string list \<Rightarrow> outcome + string \<times> Query" where
  "main_query E scopifyFlag args =
     (if \<not> scopifyFlag \<and> length args \<noteq> 3 \<or> scopifyFlag \<and> length args \<noteq> 2 then
        Inl \<lparr>stdout = [], stderr = [flag_PrintDefaults], exit_code = 2\<rparr>
      else
        let server = flag_Arg args 0 in
        if \<not> strings_HasPrefix server ''http://'' \<and> \<not> strings_HasPrefix server ''https://'' then
          Inl (log_Fatal ''expected server to have http:// or https:// prefix'')
        else if \<not> scopifyFlag then
          (if flag_Arg args 1 = [] then
             Inl (log_Fatal ''theme argument is required (e.x. 'InspiredGitHub')'')
           else
             (case ioutil_ReadFile E (flag_Arg args 2) of
                Inl err \<Rightarrow> Inl (log_Fatal (Error_text err))
              | Inr data \<Rightarrow>
                  Inr (server,
                       \<lparr>Extension = [], Filepath = filepath_Base (flag_Arg args 2),
                        Theme = flag_Arg args 1, Scopify = scopifyFlag, Query.Code = data\<rparr>)))
        else
          (case ioutil_ReadFile E (flag_Arg args 1) of
             Inl err \<Rightarrow> Inl (log_Fatal (Error_text err))
           | Inr data \<Rightarrow>
               Inr (server,
                    \<lparr>Extension = [], Filepath = filepath_Base (flag_Arg args 1),
                     Theme = [], Scopify = scopifyFlag, Query.Code = data\<rparr>)))"

text \<open>\<^verbatim>\<open>main\<close>: the query is sent through a new client and the response is printed.\<close>

definition main :: "env \<Rightarrow> bool \<Rightarrow> string list \<Rightarrow> outcome" where
  "main E scopifyFlag args =
     (case main_query E scopifyFlag args of
        Inl ended \<Rightarrow> ended
      | Inr (server, query) \<Rightarrow>
          (case Highlight E (New server) query of
             Inl err \<Rightarrow> log_Fatal (Error_text err)
           | Inr resp \<Rightarrow>
               if Response.Data resp \<noteq> [] then
                 \<lparr>stdout = Response.Data resp @ [CHR 0x0A], stderr = [], exit_code = 0\<rparr>
               else print_regions E query resp (Response.ScopifiedRegions resp) []))"

section \<open>Example inputs\<close>

text \<open>
  A service that answers every request with the given status code and a body that
  decodes as the given record, next to a file system in which every path holds the given
  text. Its URL parser leaves the URL as it is, as Go does for \<open>http://localhost:9238/\<close>,
  and its \<^verbatim>\<open>%q\<close> puts the text between double quotes, as Go does for printable ASCII
  text without quote or backslash.
\<close>

definition example_env :: "int \<Rightarrow> response \<Rightarrow> string \<Rightarrow> env" where
  "example_env status r text =
     \<lparr>json_Marshal = (\<lambda>q. Inr ''{}''),
      url_Parse = (\<lambda>u. Inr u),
      client_Do = (\<lambda>req. Inr \<lparr>StatusCode = status, http_Response.Body = ''body''\<rparr>),
      json_Decode = (\<lambda>body. Inr r),
      fmt_q = (\<lambda>s. [CHR 0x22] @ s @ [CHR 0x22]),
      ioutil_ReadFile = (\<lambda>path. Inr text)\<rparr>"

definition example_response :: "string \<Rightarrow> string \<Rightarrow> response" where
  "example_response err code =
     \<lparr>Data = [], Plaintext = False, DetectedLanguage = ''Go'',
      ScopifiedScopeNames = [''comment'', ''string'', ''keyword''],
      ScopifiedRegions = [\<lparr>Offset = 0, Length = 3, Scopes = [1]\<rparr>],
      Error = err, Code = code\<rparr>"

text \<open>A URL parser that writes a space as \<open>%20\<close>, as package net/url does for a space in
  the path of a URL.\<close>

definition example_url_Parse :: "string \<Rightarrow> error + string" where
  "example_url_Parse u = Inr (concat (map (\<lambda>ch. if ch = CHR '' '' then ''%20'' else [ch]) u))"

definition example_query :: Query where
  "example_query =
     \<lparr>Extension = [], Filepath = ''x.go'', Theme = [], Scopify = True, Query.Code = ''// x''\<rparr>"

section \<open>Properties of the client\<close>

lemma range_names_lookup:
  "range_names i xs m k =
     (if i \<le> k \<and> k < i + int (length xs) then Some (xs ! nat (k - i)) else m k)"
proof (induction xs arbitrary: i m)
  case Nil
  then show ?case by auto
next
  case (Cons x xs)
  have step: "range_names i (x # xs) m k =
      (if i + 1 \<le> k \<and> k < i + 1 + int (length xs) then Some (xs ! nat (k - (i + 1)))
       else (m(i \<mapsto> x)) k)"
    by (simp add: Cons.IH)
  consider "k < i" | "k = i" | "i < k"
    by linarith
  then show ?case
  proof cases
    case 1
    then show ?thesis unfolding step by simp
  next
    case 2
    then show ?thesis unfolding step by simp
  next
    case 3
    then have "nat (k - i) = Suc (nat (k - (i + 1)))"
      by linarith
    with 3 show ?thesis unfolding step by simp
  qed
qed

subsection \<open>The projection of the wire record\<close>

text \<open>
  Claim C3. For every decoded wire record, the projection into the public response maps
  each index \<open>i\<close> with \<open>0 \<le> i < length scopified_scope_names\<close> to the \<open>i\<close>-th entry of
  that list, has no other key, and passes \<open>Data\<close>, \<open>Plaintext\<close>, \<open>DetectedLanguage\<close> and
  \<open>ScopifiedRegions\<close> through unchanged.
\<close>

theorem toSuccessResponse_projection:
  "(\<forall>i < length (ScopifiedScopeNames r).
      Response.ScopifiedScopeNames (toSuccessResponse r) (int i) = Some (ScopifiedScopeNames r ! i))
   \<and> dom (Response.ScopifiedScopeNames (toSuccessResponse r)) = {0 ..< int (length (ScopifiedScopeNames r))}
   \<and> Response.Data (toSuccessResponse r) = Data r
   \<and> Response.Plaintext (toSuccessResponse r) = Plaintext r
   \<and> Response.DetectedLanguage (toSuccessResponse r) = DetectedLanguage r
   \<and> Response.ScopifiedRegions (toSuccessResponse r) = ScopifiedRegions r"
proof -
  have m: "Response.ScopifiedScopeNames (toSuccessResponse r) = range_names 0 (ScopifiedScopeNames r) Map.empty"
    by (simp add: toSuccessResponse_def)
  have 1: "\<forall>i < length (ScopifiedScopeNames r).
      Response.ScopifiedScopeNames (toSuccessResponse r) (int i) = Some (ScopifiedScopeNames r ! i)"
    by (simp add: m range_names_lookup)
  have 2: "dom (Response.ScopifiedScopeNames (toSuccessResponse r)) = {0 ..< int (length (ScopifiedScopeNames r))}"
    unfolding m by (auto simp add: range_names_lookup dom_def)
  have 3: "Response.Data (toSuccessResponse r) = Data r
   \<and> Response.Plaintext (toSuccessResponse r) = Plaintext r
   \<and> Response.DetectedLanguage (toSuccessResponse r) = DetectedLanguage r
   \<and> Response.ScopifiedRegions (toSuccessResponse r) = ScopifiedRegions r"
    by (simp add: toSuccessResponse_def)
  from 1 2 3 show ?thesis by blast
qed

theorem toSuccessResponse_projection_witness:
  "Response.ScopifiedScopeNames (toSuccessResponse (example_response [] [])) 0 = Some ''comment''
   \<and> Response.ScopifiedScopeNames (toSuccessResponse (example_response [] [])) 1 = Some ''string''
   \<and> Response.ScopifiedScopeNames (toSuccessResponse (example_response [] [])) 2 = Some ''keyword''
   \<and> dom (Response.ScopifiedScopeNames (toSuccessResponse (example_response [] []))) = {0 ..< 3}"
proof -
  have len: "length (ScopifiedScopeNames (example_response [] [])) = 3"
    by (simp add: example_response_def)
  have nth: "ScopifiedScopeNames (example_response [] []) ! 0 = ''comment''"
    "ScopifiedScopeNames (example_response [] []) ! 1 = ''string''"
    "ScopifiedScopeNames (example_response [] []) ! 2 = ''keyword''"
    by (simp_all add: example_response_def)
  note t = toSuccessResponse_projection [of "example_response [] []", unfolded len]
  from t have a: "\<forall>i<3. Response.ScopifiedScopeNames (toSuccessResponse (example_response [] [])) (int i)
      = Some (ScopifiedScopeNames (example_response [] []) ! i)" by blast
  from a [rule_format, of 0] nth(1)
  have "Response.ScopifiedScopeNames (toSuccessResponse (example_response [] [])) 0 = Some ''comment''"
    by simp
  moreover from a [rule_format, of 1] nth(2)
  have "Response.ScopifiedScopeNames (toSuccessResponse (example_response [] [])) 1 = Some ''string''"
    by simp
  moreover from a [rule_format, of 2] nth(3)
  have "Response.ScopifiedScopeNames (toSuccessResponse (example_response [] [])) 2 = Some ''keyword''"
    by simp
  moreover from t have "dom (Response.ScopifiedScopeNames (toSuccessResponse (example_response [] []))) = {0 ..< 3}"
    by simp
  ultimately show ?thesis by simp
qed

subsection \<open>What Highlight returns once the request is built\<close>

lemma Highlight_after_request:
  assumes "Highlight_request E c q = Inr req"
  shows "Highlight E c q =
     (case client_Do E req of
        Inl err \<Rightarrow> Inl (errors_Wrap err (''making request to '' @ syntectServer c @ ''/''))
      | Inr resp \<Rightarrow>
          if StatusCode resp = 400 then Inl ErrRequestTooLarge
          else
            (case json_Decode E (http_Response.Body resp) of
               Inl err \<Rightarrow>
                 Inl (errors_Wrap err (''decoding JSON response from '' @ syntectServer c @ ''/''))
             | Inr r \<Rightarrow>
                 if Error r \<noteq> [] then
                   Inl (errors_Wrap
                         (if Code r = ''invalid_theme'' then ErrInvalidTheme
                          else if Code r = ''resource_not_found'' then
                            errors_New ''gosyntect internal error: resource_not_found''
                          else if Code r = ''panic'' then ErrPanic
                          else fmt_Errorf (''unknown error='' @ fmt_q E (Error r) @
                                           '' code='' @ fmt_q E (Code r)))
                         (syntectServer c))
                 else Inr (toSuccessResponse r)))"
  using assms unfolding Highlight_def url_def http_StatusBadRequest_def by simp

lemma Highlight_decoded:
  assumes "Highlight_request E c q = Inr req"
    and "client_Do E req = Inr resp"
    and "StatusCode resp \<noteq> 400"
    and "json_Decode E (http_Response.Body resp) = Inr r"
  shows "Highlight E c q =
     (if Error r \<noteq> [] then
        Inl (errors_Wrap
              (if Code r = ''invalid_theme'' then ErrInvalidTheme
               else if Code r = ''resource_not_found'' then
                 errors_New ''gosyntect internal error: resource_not_found''
               else if Code r = ''panic'' then ErrPanic
               else fmt_Errorf (''unknown error='' @ fmt_q E (Error r) @
                                '' code='' @ fmt_q E (Code r)))
              (syntectServer c))
      else Inr (toSuccessResponse r))"
  using assms by (simp add: Highlight_after_request)

lemma example_request:
  "Highlight_request (example_env status r text) c q =
     Inr \<lparr>Method = ''POST'', URL = syntectServer c @ ''/'',
          Header = [''Content-Type'' \<mapsto> ''application/json''], http_Request.Body = ''{}''\<rparr>"
  by (simp add: Highlight_request_def http_NewRequest_def url_def example_env_def)

lemma example_Do:
  "client_Do (example_env status r text) req = Inr \<lparr>StatusCode = status, http_Response.Body = ''body''\<rparr>"
  by (simp add: example_env_def)

lemma example_Decode:
  "json_Decode (example_env status r text) body = Inr r"
  by (simp add: example_env_def)

subsection \<open>The error code of a decoded record\<close>

text \<open>
  Claim C1. For every service response whose status is not 400 and whose body decodes
  as the wire record, \<open>Highlight\<close> fails if and only if the \<open>Error\<close> field of the record
  is not empty. When it fails, the \<open>Code\<close> field selects the error by exact comparison:
  \<open>invalid_theme\<close> gives the invalid-theme error, \<open>resource_not_found\<close> the internal
  error, \<open>panic\<close> the panic error, and any other code, such as \<open>Invalid_Theme\<close> with
  another casing, the generic error that embeds the quoted error text and code.
\<close>

theorem Highlight_error_code:
  assumes "Highlight_request E c q = Inr req"
    and "client_Do E req = Inr resp"
    and "StatusCode resp \<noteq> 400"
    and "json_Decode E (http_Response.Body resp) = Inr r"
  shows "((\<exists>err. Highlight E c q = Inl err) \<longleftrightarrow> Error r \<noteq> [])
    \<and> (Error r = [] \<longrightarrow> Highlight E c q = Inr (toSuccessResponse r))
    \<and> (Error r \<noteq> [] \<and> Code r = ''invalid_theme'' \<longrightarrow>
          Highlight E c q = Inl (errors_Wrap ErrInvalidTheme (syntectServer c)))
    \<and> (Error r \<noteq> [] \<and> Code r = ''resource_not_found'' \<longrightarrow>
          Highlight E c q =
            Inl (errors_Wrap (errors_New ''gosyntect internal error: resource_not_found'')
                  (syntectServer c)))
    \<and> (Error r \<noteq> [] \<and> Code r = ''panic'' \<longrightarrow>
          Highlight E c q = Inl (errors_Wrap ErrPanic (syntectServer c)))
    \<and> (Error r \<noteq> [] \<and> Code r \<notin> {''invalid_theme'', ''resource_not_found'', ''panic''} \<longrightarrow>
          Highlight E c q =
            Inl (errors_Wrap
                  (fmt_Errorf (''unknown error='' @ fmt_q E (Error r) @ '' code='' @ fmt_q E (Code r)))
                  (syntectServer c)))
    \<and> (Error r \<noteq> [] \<and> Code r = ''Invalid_Theme'' \<longrightarrow>
          Highlight E c q =
            Inl (errors_Wrap
                  (fmt_Errorf (''unknown error='' @ fmt_q E (Error r) @ '' code='' @ fmt_q E ''Invalid_Theme''))
                  (syntectServer c)))"
proof -
  note H = Highlight_decoded [OF assms]
  have 1: "(\<exists>err. Highlight E c q = Inl err) \<longleftrightarrow> Error r \<noteq> []"
    unfolding H by simp
  have 2: "Error r = [] \<longrightarrow> Highlight E c q = Inr (toSuccessResponse r)"
    unfolding H by simp
  have 3: "Error r \<noteq> [] \<and> Code r = ''invalid_theme'' \<longrightarrow>
          Highlight E c q = Inl (errors_Wrap ErrInvalidTheme (syntectServer c))"
    unfolding H by simp
  have 4: "Error r \<noteq> [] \<and> Code r = ''resource_not_found'' \<longrightarrow>
          Highlight E c q =
            Inl (errors_Wrap (errors_New ''gosyntect internal error: resource_not_found'')
                  (syntectServer c))"
    unfolding H by simp
  have 5: "Error r \<noteq> [] \<and> Code r = ''panic'' \<longrightarrow>
          Highlight E c q = Inl (errors_Wrap ErrPanic (syntectServer c))"
    unfolding H by simp
  have 6: "Error r \<noteq> [] \<and> Code r \<notin> {''invalid_theme'', ''resource_not_found'', ''panic''} \<longrightarrow>
          Highlight E c q =
            Inl (errors_Wrap
                  (fmt_Errorf (''unknown error='' @ fmt_q E (Error r) @ '' code='' @ fmt_q E (Code r)))
                  (syntectServer c))"
    unfolding H by simp
  have 7: "Error r \<noteq> [] \<and> Code r = ''Invalid_Theme'' \<longrightarrow>
          Highlight E c q =
            Inl (errors_Wrap
                  (fmt_Errorf (''unknown error='' @ fmt_q E (Error r) @ '' code='' @ fmt_q E ''Invalid_Theme''))
                  (syntectServer c))"
    unfolding H by simp
  from 1 2 3 4 5 6 7 show ?thesis by blast
qed


text \<open>The theorem at a service that answers 200 with an error record, for the codes
  \<open>Invalid_Theme\<close> and \<open>invalid_theme\<close>, and with a record without error.\<close>

theorem Highlight_error_code_witness:
  "Highlight_request (example_env 200 (example_response ''no such theme'' ''Invalid_Theme'') ''// x'')
      (New ''http://localhost:9238'') example_query =
     Inr \<lparr>Method = ''POST'', URL = ''http://localhost:9238/'',
          Header = [''Content-Type'' \<mapsto> ''application/json''], http_Request.Body = ''{}''\<rparr>
   \<and> StatusCode \<lparr>StatusCode = 200, http_Response.Body = ''body''\<rparr> \<noteq> 400
   \<and> Error (example_response ''no such theme'' ''Invalid_Theme'') \<noteq> []
   \<and> Highlight (example_env 200 (example_response ''no such theme'' ''Invalid_Theme'') ''// x'')
        (New ''http://localhost:9238'') example_query =
       Inl (errors_Wrap
             (fmt_Errorf (''unknown error='' @ [CHR 0x22] @ ''no such theme'' @ [CHR 0x22] @
                          '' code='' @ [CHR 0x22] @ ''Invalid_Theme'' @ [CHR 0x22]))
             ''http://localhost:9238'')
   \<and> Highlight (example_env 200 (example_response ''no such theme'' ''invalid_theme'') ''// x'')
        (New ''http://localhost:9238'') example_query =
       Inl (errors_Wrap ErrInvalidTheme ''http://localhost:9238'')
   \<and> Highlight (example_env 200 (example_response [] ''invalid_theme'') ''// x'')
        (New ''http://localhost:9238'') example_query =
       Inr (toSuccessResponse (example_response [] ''invalid_theme''))"
proof -
  let ?c = "New ''http://localhost:9238''"
  let ?resp = "\<lparr>StatusCode = 200, http_Response.Body = ''body''\<rparr>"
  have srv: "syntectServer ?c = ''http://localhost:9238''"
    by (simp add: New_def strings_TrimSuffix_def strings_HasSuffix_def)
  have req: "\<And>r. Highlight_request (example_env 200 r ''// x'') ?c example_query =
     Inr \<lparr>Method = ''POST'', URL = ''http://localhost:9238/'',
          Header = [''Content-Type'' \<mapsto> ''application/json''], http_Request.Body = ''{}''\<rparr>"
    using example_request [of 200 _ "''// x''" ?c example_query] by (simp add: srv)
  have st: "StatusCode ?resp \<noteq> 400"
    by simp
  have dec: "\<And>r. json_Decode (example_env 200 r ''// x'') (http_Response.Body ?resp) = Inr r"
    by (rule example_Decode)
  have q: "\<And>r. fmt_q (example_env 200 r ''// x'') = (\<lambda>s. [CHR 0x22] @ s @ [CHR 0x22])"
    by (simp add: example_env_def)
  note t = Highlight_error_code [OF req example_Do st dec]
  have a: "Highlight (example_env 200 (example_response ''no such theme'' ''Invalid_Theme'') ''// x'')
        ?c example_query =
       Inl (errors_Wrap
             (fmt_Errorf (''unknown error='' @ [CHR 0x22] @ ''no such theme'' @ [CHR 0x22] @
                          '' code='' @ [CHR 0x22] @ ''Invalid_Theme'' @ [CHR 0x22]))
             ''http://localhost:9238'')"
    using t [of "example_response ''no such theme'' ''Invalid_Theme''"]
    by (simp add: example_response_def srv q)
  have b: "Highlight (example_env 200 (example_response ''no such theme'' ''invalid_theme'') ''// x'')
        ?c example_query = Inl (errors_Wrap ErrInvalidTheme ''http://localhost:9238'')"
    using t [of "example_response ''no such theme'' ''invalid_theme''"]
    by (simp add: example_response_def srv)
  have c: "Highlight (example_env 200 (example_response [] ''invalid_theme'') ''// x'')
        ?c example_query = Inr (toSuccessResponse (example_response [] ''invalid_theme''))"
    using t [of "example_response [] ''invalid_theme''"]
    by (simp add: example_response_def)
  have e: "Error (example_response ''no such theme'' ''Invalid_Theme'') \<noteq> []"
    by (simp add: example_response_def)
  from req st e a b c show ?thesis by blast
qed

subsection \<open>Status 400\<close>

lemma Highlight_request_decoder:
  "Highlight_request (E\<lparr>json_Decode := decode\<rparr>) c q = Highlight_request E c q"
proof -
  have new: "http_NewRequest (E\<lparr>json_Decode := decode\<rparr>) = http_NewRequest E"
    by (rule ext)+ (simp add: http_NewRequest_def)
  show ?thesis
    unfolding Highlight_request_def new by simp
qed

text \<open>
  Claim C2. For every transport response with status 400, \<open>Highlight\<close> returns the
  request-too-large error at once. The body is not decoded: the result is the same
  whatever the decoder would make of the body, also when the body is well-formed JSON
  that carries another error code.
\<close>

theorem Highlight_status_400:
  assumes "Highlight_request E c q = Inr req"
    and "client_Do E req = Inr resp"
    and "StatusCode resp = 400"
  shows "Highlight E c q = Inl ErrRequestTooLarge
    \<and> Highlight (E\<lparr>json_Decode := decode\<rparr>) c q = Inl ErrRequestTooLarge"
proof -
  have 1: "Highlight E c q = Inl ErrRequestTooLarge"
    using assms by (simp add: Highlight_after_request)
  have "Highlight_request (E\<lparr>json_Decode := decode\<rparr>) c q = Inr req"
    using assms(1) by (simp add: Highlight_request_decoder)
  moreover have "client_Do (E\<lparr>json_Decode := decode\<rparr>) req = Inr resp"
    using assms(2) by simp
  ultimately have 2: "Highlight (E\<lparr>json_Decode := decode\<rparr>) c q = Inl ErrRequestTooLarge"
    using assms(3) by (simp add: Highlight_after_request)
  from 1 2 show ?thesis ..
qed

text \<open>The theorem at a service that answers 400 with a body that decodes as an
  \<open>invalid_theme\<close> error record.\<close>

theorem Highlight_status_400_witness:
  "StatusCode \<lparr>StatusCode = 400, http_Response.Body = ''body''\<rparr> = 400
   \<and> json_Decode (example_env 400 (example_response ''no such theme'' ''invalid_theme'') ''// x'') ''body''
       = Inr (example_response ''no such theme'' ''invalid_theme'')
   \<and> Highlight (example_env 400 (example_response ''no such theme'' ''invalid_theme'') ''// x'')
        (New ''http://localhost:9238'') example_query = Inl ErrRequestTooLarge"
proof -
  have st: "StatusCode \<lparr>StatusCode = 400, http_Response.Body = ''body''\<rparr> = 400"
    by simp
  from Highlight_status_400 [OF example_request example_Do st]
  have "Highlight (example_env 400 (example_response ''no such theme'' ''invalid_theme'') ''// x'')
        (New ''http://localhost:9238'') example_query = Inl ErrRequestTooLarge"
    by blast
  with st example_Decode show ?thesis by blast
qed


subsection \<open>The service address in errors and in requests\<close>

lemma New_server_values:
  "syntectServer (New ''http://localhost:9238'') = ''http://localhost:9238''"
  "syntectServer (New ''http://localhost:9238/'') = ''http://localhost:9238''"
  by (simp_all add: New_def strings_TrimSuffix_def strings_HasSuffix_def)

lemma Highlight_request_URL:
  assumes "Highlight_request E c q = Inr req"
  shows "url_Parse E (syntectServer c @ ''/'') = Inr (URL req) \<and> Method req = ''POST''"
  using assms
  by (auto simp add: Highlight_request_def http_NewRequest_def url_def
      split: sum.splits)

lemma Highlight_request_transport:
  "Highlight_request (E\<lparr>client_Do := transport\<rparr>) c q = Highlight_request E c q"
proof -
  have new: "http_NewRequest (E\<lparr>client_Do := transport\<rparr>) = http_NewRequest E"
    by (rule ext)+ (simp add: http_NewRequest_def)
  show ?thesis
    unfolding Highlight_request_def new by simp
qed

text \<open>
  Claim C4 says that every error returned by \<open>Highlight\<close>, the request-too-large error
  on status 400 included, names the configured service address. On status 400 the
  client configured with \<open>http://localhost:9238\<close> returns the bare
  \<open>ErrRequestTooLarge\<close>, whose text is \<open>request too large\<close> and does not contain the
  address.
\<close>

theorem Highlight_400_error_unnamed:
  "Highlight (example_env 400 (example_response [] []) ''// x'') (New ''http://localhost:9238'')
      example_query = Inl ErrRequestTooLarge
   \<and> syntectServer (New ''http://localhost:9238'') = ''http://localhost:9238''
   \<and> Error_text ErrRequestTooLarge = ''request too large''
   \<and> \<not> sublist ''http://localhost:9238'' (Error_text ErrRequestTooLarge)"
proof -
  have "Highlight (example_env 400 (example_response [] []) ''// x'') (New ''http://localhost:9238'')
      example_query = Inl ErrRequestTooLarge"
    using example_request [of 400 "example_response [] []" "''// x''" "New ''http://localhost:9238''" example_query]
    by (simp add: Highlight_after_request example_Do)
  moreover have "\<not> sublist ''http://localhost:9238'' ''request too large''"
    by code_simp
  ultimately show ?thesis
    by (simp add: New_server_values)
qed

text \<open>
  Claim C4, amended. Once the request is built, every error returned by \<open>Highlight\<close>
  other than the one for status 400 names the configured service address in its text:
  the transport error and the decoding error name the request URL, which is the address
  followed by \<open>/\<close>, and each of the four error-code cases is wrapped with the address.
  On status 400 the error is \<open>ErrRequestTooLarge\<close> itself.
\<close>

theorem Highlight_error_names_server:
  assumes "Highlight_request E c q = Inr req"
    and "Highlight E c q = Inl err"
  shows "if \<exists>resp. client_Do E req = Inr resp \<and> StatusCode resp = 400
         then err = ErrRequestTooLarge
         else sublist (syntectServer c) (Error_text err)"
proof (cases "client_Do E req")
  case (Inl cause)
  with assms have "err = errors_Wrap cause (''making request to '' @ syntectServer c @ ''/'')"
    by (simp add: Highlight_after_request)
  then have "Error_text err = ''making request to '' @ syntectServer c @ (''/'' @ '': '' @ Error_text cause)"
    by simp
  then have "sublist (syntectServer c) (Error_text err)"
    by (simp only: sublist_appendI)
  with Inl show ?thesis by simp
next
  case (Inr resp)
  show ?thesis
  proof (cases "StatusCode resp = 400")
    case True
    with assms Inr show ?thesis
      by (simp add: Highlight_after_request)
  next
    case False
    have named: "sublist (syntectServer c) (Error_text err)"
    proof (cases "json_Decode E (http_Response.Body resp)")
      case (Inl cause)
      with assms Inr False
      have "err = errors_Wrap cause (''decoding JSON response from '' @ syntectServer c @ ''/'')"
        by (simp add: Highlight_after_request)
      then have "Error_text err =
          ''decoding JSON response from '' @ syntectServer c @ (''/'' @ '': '' @ Error_text cause)"
        by simp
      then show ?thesis
        by (simp only: sublist_appendI)
    next
      case (Inr r)
      with assms \<open>client_Do E req = Inr resp\<close> False
      obtain kind where "err = errors_Wrap kind (syntectServer c)"
        by (auto simp add: Highlight_after_request split: if_splits)
      then have "Error_text err = [] @ syntectServer c @ ('': '' @ Error_text kind)"
        by simp
      then show ?thesis
        by (simp only: sublist_appendI)
    qed
    with Inr False show ?thesis by simp
  qed
qed

text \<open>The theorem at a service that answers 200 with a \<open>panic\<close> error record.\<close>

theorem Highlight_error_names_server_witness:
  "Highlight_request (example_env 200 (example_response ''boom'' ''panic'') ''// x'')
      (New ''http://localhost:9238/'') example_query =
     Inr \<lparr>Method = ''POST'', URL = ''http://localhost:9238/'',
          Header = [''Content-Type'' \<mapsto> ''application/json''], http_Request.Body = ''{}''\<rparr>
   \<and> Highlight (example_env 200 (example_response ''boom'' ''panic'') ''// x'')
        (New ''http://localhost:9238/'') example_query =
       Inl (errors_Wrap ErrPanic ''http://localhost:9238'')
   \<and> Error_text (errors_Wrap ErrPanic ''http://localhost:9238'') =
       ''http://localhost:9238: syntect panic while highlighting''
   \<and> sublist ''http://localhost:9238'' (Error_text (errors_Wrap ErrPanic ''http://localhost:9238''))"
proof -
  let ?E = "example_env 200 (example_response ''boom'' ''panic'') ''// x''"
  let ?c = "New ''http://localhost:9238/''"
  have req: "Highlight_request ?E ?c example_query =
     Inr \<lparr>Method = ''POST'', URL = ''http://localhost:9238/'',
          Header = [''Content-Type'' \<mapsto> ''application/json''], http_Request.Body = ''{}''\<rparr>"
    using example_request [of 200 _ "''// x''" ?c example_query] by (simp add: New_server_values)
  have res: "Highlight ?E ?c example_query = Inl (errors_Wrap ErrPanic ''http://localhost:9238'')"
    using req
    by (simp add: Highlight_after_request example_Do example_Decode New_server_values
        example_response_def)
  have "\<not> (\<exists>resp. client_Do ?E \<lparr>Method = ''POST'', URL = ''http://localhost:9238/'',
          Header = [''Content-Type'' \<mapsto> ''application/json''], http_Request.Body = ''{}''\<rparr> = Inr resp \<and> StatusCode resp = 400)"
    by (simp add: example_Do)
  with Highlight_error_names_server [OF req res]
  have "sublist (syntectServer ?c) (Error_text (errors_Wrap ErrPanic ''http://localhost:9238''))"
    by argo
  then have "sublist ''http://localhost:9238'' (Error_text (errors_Wrap ErrPanic ''http://localhost:9238''))"
    by (simp only: New_server_values)
  with req res show ?thesis by simp
qed

text \<open>
  Claim C5 says that every request targets exactly the stored address followed by
  \<open>/\<close>. The client hands that string to \<^verbatim>\<open>http.NewRequest\<close>, which parses it and
  writes it back: for the address \<open>http://localhost:9238/a b\<close>, with a parser that
  writes the space as \<open>%20\<close>, the request goes to \<open>http://localhost:9238/a%20b/\<close>, which
  is not the stored address followed by \<open>/\<close>.
\<close>

theorem New_request_target_reencoded:
  "syntectServer (New ''http://localhost:9238/a b'') = ''http://localhost:9238/a b''
   \<and> url_Parse ((example_env 200 (example_response [] []) ''// x'')\<lparr>url_Parse := example_url_Parse\<rparr>)
        ''http://localhost:9238/a b/'' = Inr ''http://localhost:9238/a%20b/''
   \<and> Highlight_request
        ((example_env 200 (example_response [] []) ''// x'')\<lparr>url_Parse := example_url_Parse\<rparr>)
        (New ''http://localhost:9238/a b'') example_query =
       Inr \<lparr>Method = ''POST'', URL = ''http://localhost:9238/a%20b/'',
            Header = [''Content-Type'' \<mapsto> ''application/json''], http_Request.Body = ''{}''\<rparr>
   \<and> ''http://localhost:9238/a%20b/'' \<noteq> syntectServer (New ''http://localhost:9238/a b'') @ ''/''"
proof -
  have srv: "syntectServer (New ''http://localhost:9238/a b'') = ''http://localhost:9238/a b''"
    by (simp add: New_def strings_TrimSuffix_def strings_HasSuffix_def)
  have parse: "example_url_Parse ''http://localhost:9238/a b/'' = Inr ''http://localhost:9238/a%20b/''"
    by (simp add: example_url_Parse_def)
  have req: "Highlight_request
        ((example_env 200 (example_response [] []) ''// x'')\<lparr>url_Parse := example_url_Parse\<rparr>)
        (New ''http://localhost:9238/a b'') example_query =
       Inr \<lparr>Method = ''POST'', URL = ''http://localhost:9238/a%20b/'',
            Header = [''Content-Type'' \<mapsto> ''application/json''], http_Request.Body = ''{}''\<rparr>"
    by (simp add: Highlight_request_def http_NewRequest_def url_def srv parse example_env_def)
  from srv parse req show ?thesis
    by simp
qed

text \<open>
  Claim C5, amended. \<open>New\<close> stores the configured address without its trailing \<open>/\<close>, and
  every request is built for exactly that stored address followed by \<open>/\<close>: this string
  is the target handed to \<^verbatim>\<open>http.NewRequest\<close>, the URL of the request is what the URL
  parser makes of it, and the request so built is the one handed to the transport, whose
  answer to it decides the result (a failure of the transport is the error returned, a
  status 400 gives the request-too-large error, and two transports that answer this
  request alike give the same result). Whenever the parser leaves the target unchanged,
  as for \<open>http://localhost:9238/\<close>, the request goes to exactly the stored address
  followed by \<open>/\<close>: a client configured with \<open>http://localhost:9238\<close> or with
  \<open>http://localhost:9238/\<close> sends its requests to \<open>http://localhost:9238/\<close>.
\<close>

theorem New_request_target:
  "syntectServer (New (s @ ''/'')) = s
   \<and> (\<not> strings_HasSuffix s ''/'' \<longrightarrow> syntectServer (New s) = s)
   \<and> (Highlight_request E (New s) q = Inr req \<longrightarrow>
        url_Parse E (syntectServer (New s) @ ''/'') = Inr (URL req))
   \<and> (Highlight_request E (New s) q = Inr req \<and>
       url_Parse E (syntectServer (New s) @ ''/'') = Inr (syntectServer (New s) @ ''/'') \<longrightarrow>
        URL req = syntectServer (New s) @ ''/'')
   \<and> (Highlight_request E (New s) q = Inr req \<and> client_Do E req = Inl cause \<longrightarrow>
        Highlight E (New s) q =
          Inl (errors_Wrap cause (''making request to '' @ syntectServer (New s) @ ''/'')))
   \<and> (Highlight_request E (New s) q = Inr req \<and> client_Do E req = Inr resp \<and>
       StatusCode resp = 400 \<longrightarrow>
        Highlight E (New s) q = Inl ErrRequestTooLarge)
   \<and> (Highlight_request E (New s) q = Inr req \<and> transport req = transport' req \<longrightarrow>
        Highlight (E\<lparr>client_Do := transport\<rparr>) (New s) q =
        Highlight (E\<lparr>client_Do := transport'\<rparr>) (New s) q)
   \<and> syntectServer (New ''http://localhost:9238'') = ''http://localhost:9238''
   \<and> syntectServer (New ''http://localhost:9238/'') = ''http://localhost:9238''
   \<and> url (New ''http://localhost:9238'') ''/'' = ''http://localhost:9238/''
   \<and> url (New ''http://localhost:9238/'') ''/'' = ''http://localhost:9238/''
   \<and> (url_Parse E ''http://localhost:9238/'' = Inr ''http://localhost:9238/'' \<and>
       Highlight_request E (New ''http://localhost:9238'') q = Inr req1 \<longrightarrow>
        URL req1 = ''http://localhost:9238/'')
   \<and> (url_Parse E ''http://localhost:9238/'' = Inr ''http://localhost:9238/'' \<and>
       Highlight_request E (New ''http://localhost:9238/'') q = Inr req2 \<longrightarrow>
        URL req2 = ''http://localhost:9238/'')"
proof -
  have 1: "syntectServer (New (s @ ''/'')) = s"
    by (simp add: New_def strings_TrimSuffix_def strings_HasSuffix_def)
  have 2: "\<not> strings_HasSuffix s ''/'' \<longrightarrow> syntectServer (New s) = s"
    by (simp add: New_def strings_TrimSuffix_def)
  have 3: "Highlight_request E c q = Inr r \<longrightarrow> url_Parse E (syntectServer c @ ''/'') = Inr (URL r)"
    for c r
    using Highlight_request_URL by blast
  have 4: "Highlight_request E c q = Inr r \<and>
       url_Parse E (syntectServer c @ ''/'') = Inr (syntectServer c @ ''/'') \<longrightarrow>
        URL r = syntectServer c @ ''/''" for c r
    using 3 [of c r] by auto
  have 5: "Highlight_request E (New s) q = Inr req \<and> client_Do E req = Inl cause \<longrightarrow>
        Highlight E (New s) q =
          Inl (errors_Wrap cause (''making request to '' @ syntectServer (New s) @ ''/''))"
    by (simp add: Highlight_after_request)
  have 6: "Highlight_request E (New s) q = Inr req \<and> client_Do E req = Inr resp \<and>
       StatusCode resp = 400 \<longrightarrow>
        Highlight E (New s) q = Inl ErrRequestTooLarge"
    by (simp add: Highlight_after_request)
  have 7: "Highlight_request E (New s) q = Inr req \<and> transport req = transport' req \<longrightarrow>
        Highlight (E\<lparr>client_Do := transport\<rparr>) (New s) q =
        Highlight (E\<lparr>client_Do := transport'\<rparr>) (New s) q"
  proof
    assume a: "Highlight_request E (New s) q = Inr req \<and> transport req = transport' req"
    then have "Highlight_request (E\<lparr>client_Do := t\<rparr>) (New s) q = Inr req" for t
      by (simp add: Highlight_request_transport)
    with a show "Highlight (E\<lparr>client_Do := transport\<rparr>) (New s) q =
        Highlight (E\<lparr>client_Do := transport'\<rparr>) (New s) q"
      by (simp add: Highlight_after_request cong: sum.case_cong if_cong)
  qed
  have 8: "url (New ''http://localhost:9238'') ''/'' = ''http://localhost:9238/''"
    "url (New ''http://localhost:9238/'') ''/'' = ''http://localhost:9238/''"
    by (simp_all add: url_def New_server_values)
  have 9: "url_Parse E ''http://localhost:9238/'' = Inr ''http://localhost:9238/'' \<and>
       Highlight_request E (New ''http://localhost:9238'') q = Inr req1 \<longrightarrow>
        URL req1 = ''http://localhost:9238/''"
    using 4 [of "New ''http://localhost:9238''" req1] by (simp add: New_server_values)
  have 10: "url_Parse E ''http://localhost:9238/'' = Inr ''http://localhost:9238/'' \<and>
       Highlight_request E (New ''http://localhost:9238/'') q = Inr req2 \<longrightarrow>
        URL req2 = ''http://localhost:9238/''"
    using 4 [of "New ''http://localhost:9238/''" req2] by (simp add: New_server_values)
  from 1 2 3 [of "New s" req] 4 [of "New s" req] 5 6 7 8 9 10 New_server_values show ?thesis
    by blast
qed

text \<open>The theorem at the two addresses of the claim, with a transport that refuses the
  requests to \<open>http://localhost:9238/\<close> and answers every other request: both clients
  are refused.\<close>

theorem New_request_target_witness:
  "\<not> strings_HasSuffix ''http://localhost:9238'' ''/''
   \<and> syntectServer (New ''http://localhost:9238'') = ''http://localhost:9238''
   \<and> url_Parse
        ((example_env 200 (example_response [] []) ''// x'')
          \<lparr>client_Do := (\<lambda>r. if URL r = ''http://localhost:9238/''
                            then Inl (External ''connection refused'')
                            else Inr \<lparr>StatusCode = 200, http_Response.Body = ''body''\<rparr>)\<rparr>)
        ''http://localhost:9238/'' = Inr ''http://localhost:9238/''
   \<and> Highlight_request
        ((example_env 200 (example_response [] []) ''// x'')
          \<lparr>client_Do := (\<lambda>r. if URL r = ''http://localhost:9238/''
                            then Inl (External ''connection refused'')
                            else Inr \<lparr>StatusCode = 200, http_Response.Body = ''body''\<rparr>)\<rparr>)
        (New ''http://localhost:9238/'') example_query =
       Inr \<lparr>Method = ''POST'', URL = ''http://localhost:9238/'',
            Header = [''Content-Type'' \<mapsto> ''application/json''], http_Request.Body = ''{}''\<rparr>
   \<and> Highlight
        ((example_env 200 (example_response [] []) ''// x'')
          \<lparr>client_Do := (\<lambda>r. if URL r = ''http://localhost:9238/''
                            then Inl (External ''connection refused'')
                            else Inr \<lparr>StatusCode = 200, http_Response.Body = ''body''\<rparr>)\<rparr>)
        (New ''http://localhost:9238/'') example_query =
       Inl (errors_Wrap (External ''connection refused'') ''making request to http://localhost:9238/'')
   \<and> Highlight
        ((example_env 200 (example_response [] []) ''// x'')
          \<lparr>client_Do := (\<lambda>r. if URL r = ''http://localhost:9238/''
                            then Inl (External ''connection refused'')
                            else Inr \<lparr>StatusCode = 200, http_Response.Body = ''body''\<rparr>)\<rparr>)
        (New ''http://localhost:9238'') example_query =
       Inl (errors_Wrap (External ''connection refused'') ''making request to http://localhost:9238/'')"
proof -
  let ?E = "(example_env 200 (example_response [] []) ''// x'')
          \<lparr>client_Do := (\<lambda>r. if URL r = ''http://localhost:9238/''
                            then Inl (External ''connection refused'')
                            else Inr \<lparr>StatusCode = 200, http_Response.Body = ''body''\<rparr>)\<rparr>"
  let ?r = "\<lparr>Method = ''POST'', URL = ''http://localhost:9238/'',
            Header = [''Content-Type'' \<mapsto> ''application/json''], http_Request.Body = ''{}''\<rparr>"
  have nosuf: "\<not> strings_HasSuffix ''http://localhost:9238'' ''/''"
    by (simp add: strings_HasSuffix_def)
  have parse: "url_Parse ?E ''http://localhost:9238/'' = Inr ''http://localhost:9238/''"
    by (simp add: example_env_def)
  have req: "Highlight_request ?E (New a) example_query = Inr ?r"
    if "syntectServer (New a) = ''http://localhost:9238''" for a
    using example_request [of 200 "example_response [] []" "''// x''" "New a" example_query] that
    by (simp add: Highlight_request_transport)
  have refused: "client_Do ?E ?r = Inl (External ''connection refused'')"
    by simp
  note t1 = New_request_target [of "''http://localhost:9238''" ?E example_query ?r
      "External ''connection refused''" _ _ _ ?r ?r]
  note t2 = New_request_target [of "''http://localhost:9238/''" ?E example_query ?r
      "External ''connection refused''" _ _ _ ?r ?r]
  from t1 nosuf have srv: "syntectServer (New ''http://localhost:9238'') = ''http://localhost:9238''"
    by blast
  from t1 req [OF New_server_values(1)] refused
  have a: "Highlight ?E (New ''http://localhost:9238'') example_query =
      Inl (errors_Wrap (External ''connection refused'')
            (''making request to '' @ syntectServer (New ''http://localhost:9238'') @ ''/''))"
    by blast
  from t2 req [OF New_server_values(2)] refused
  have b: "Highlight ?E (New ''http://localhost:9238/'') example_query =
      Inl (errors_Wrap (External ''connection refused'')
            (''making request to '' @ syntectServer (New ''http://localhost:9238/'') @ ''/''))"
    by blast
  from a have a': "Highlight ?E (New ''http://localhost:9238'') example_query =
       Inl (errors_Wrap (External ''connection refused'') ''making request to http://localhost:9238/'')"
    by (simp add: New_server_values)
  from b have b': "Highlight ?E (New ''http://localhost:9238/'') example_query =
       Inl (errors_Wrap (External ''connection refused'') ''making request to http://localhost:9238/'')"
    by (simp add: New_server_values)
  from nosuf srv parse req [OF New_server_values(2)] a' b' show ?thesis
    by blast
qed

section \<open>Properties of the command-line tool\<close>

subsection \<open>The slice of a region\<close>

lemma int_add_in_range:
  assumes "- (2 ^ 63) \<le> a + b" and "a + b < 2 ^ 63"
  shows "int_add a b = a + b"
  using assms by (simp add: int_add_def signed_take_bit_int_eq_self)

lemma int_add_overflow:
  assumes "2 ^ 63 \<le> a + b"
  shows "int_add a b \<le> a + b - 2 ^ 64"
  using signed_take_bit_int_less_eq [of 63 "a + b"] assms by (simp add: int_add_def)

lemma slice_region:
  assumes off: "is_int off" and len: "is_int len" and code: "int (length code) < 2 ^ 63"
  shows "slice code off (int_add off len) =
     (if 0 \<le> off \<and> 0 \<le> len \<and> off + len \<le> int (length code)
      then Some (take (nat len) (drop (nat off) code)) else None)"
proof (cases "0 \<le> off \<and> 0 \<le> len \<and> off + len \<le> int (length code)")
  case True
  with code have "int_add off len = off + len"
    by (intro int_add_in_range) linarith+
  with True show ?thesis
    by (simp add: slice_def)
next
  case False
  have "\<not> (0 \<le> off \<and> off \<le> int_add off len \<and> int_add off len \<le> int (length code))"
  proof
    assume ok: "0 \<le> off \<and> off \<le> int_add off len \<and> int_add off len \<le> int (length code)"
    show False
    proof (cases "2 ^ 63 \<le> off + len")
      case True
      from int_add_overflow [OF True] have "int_add off len \<le> off + len - 2 ^ 64" .
      moreover from ok code have "off < 2 ^ 63" by linarith
      moreover from len have "len < 2 ^ 63" by (simp add: is_int_def)
      moreover have "(2::int) ^ 64 = 2 * 2 ^ 63" by simp
      ultimately have "int_add off len < 0" by linarith
      with ok show False by linarith
    next
      case small: False
      from ok len have "- (2 ^ 63) \<le> off + len" by (simp add: is_int_def)
      with small have "int_add off len = off + len"
        by (intro int_add_in_range) linarith+
      with ok False show False by linarith
    qed
  qed
  then have "slice code off (int_add off len) = None"
    unfolding slice_def by (rule if_not_P)
  moreover from False
  have "(if 0 \<le> off \<and> 0 \<le> len \<and> off + len \<le> int (length code)
      then Some (take (nat len) (drop (nat off) code)) else None) = None"
    by (rule if_not_P)
  ultimately show ?thesis
    by (rule trans [OF _ sym])
qed

subsection \<open>The loop over the regions\<close>

text \<open>The loop prints the lines of the regions up to the first one that is out of
  bounds, and panics there.\<close>

lemma print_regions_eq:
  assumes "int (length (Query.Code query)) < 2 ^ 63"
    and "\<forall>region \<in> set regions. is_int (Offset region) \<and> is_int (Length region)"
  shows "print_regions E query resp regions out =
     \<lparr>stdout = out @ concat (map (\<lambda>region.
          fmt_q E (take (nat (Length region)) (drop (nat (Offset region)) (Query.Code query))) @ '' - '' @
          strings_Join (map (map_index (Response.ScopifiedScopeNames resp)) (Scopes region)) '' '' @
          [CHR 0x0A])
        (takeWhile (\<lambda>region. 0 \<le> Offset region \<and> 0 \<le> Length region \<and>
            Offset region + Length region \<le> int (length (Query.Code query))) regions)),
      stderr = (if \<forall>region \<in> set regions. 0 \<le> Offset region \<and> 0 \<le> Length region \<and>
            Offset region + Length region \<le> int (length (Query.Code query)) then [] else [runtime_panic]),
      exit_code = (if \<forall>region \<in> set regions. 0 \<le> Offset region \<and> 0 \<le> Length region \<and>
            Offset region + Length region \<le> int (length (Query.Code query)) then 0 else 2)\<rparr>"
  using assms(2)
proof (induction regions arbitrary: out)
  case Nil
  then show ?case by simp
next
  case (Cons region rest)
  from Cons.prems have r: "is_int (Offset region)" "is_int (Length region)"
    and rest: "\<forall>region \<in> set rest. is_int (Offset region) \<and> is_int (Length region)"
    by simp_all
  note sl = slice_region [OF r assms(1)]
  show ?case
  proof (cases "0 \<le> Offset region \<and> 0 \<le> Length region \<and>
            Offset region + Length region \<le> int (length (Query.Code query))")
    case True
    then show ?thesis
      by (simp add: sl Cons.IH [OF rest])
  next
    case False
    then show ?thesis
      by (auto simp add: sl)
  qed
qed

lemma print_regions_stderr:
  "stderr (print_regions E query resp regions out) = [] \<or>
   stderr (print_regions E query resp regions out) = [runtime_panic]"
  by (induction regions arbitrary: out) (auto split: option.splits)

lemma in_bounds_is_int:
  assumes "int (length code) < 2 ^ 63"
    and "0 \<le> off \<and> 0 \<le> len \<and> off + len \<le> int (length code)"
  shows "is_int off \<and> is_int len"
  using assms unfolding is_int_def by linarith


subsection \<open>The steps of main\<close>

lemma main_after_query:
  assumes "main_query E scopifyFlag args = Inr (server, query)"
    and "Highlight E (New server) query = Inr resp"
  shows "main E scopifyFlag args =
     (if Response.Data resp \<noteq> [] then
        \<lparr>stdout = Response.Data resp @ [CHR 0x0A], stderr = [], exit_code = 0\<rparr>
      else print_regions E query resp (Response.ScopifiedRegions resp) [])"
  using assms by (simp add: main_def)

lemma main_query_wrong_count:
  assumes "length args \<noteq> (if scopifyFlag then 2 else 3)"
  shows "main_query E scopifyFlag args =
     Inl \<lparr>stdout = [], stderr = [flag_PrintDefaults], exit_code = 2\<rparr>"
  using assms by (cases scopifyFlag) (simp_all add: main_query_def)

lemma main_query_bad_server:
  assumes "length args = (if scopifyFlag then 2 else 3)"
    and "\<not> strings_HasPrefix (flag_Arg args 0) ''http://''"
    and "\<not> strings_HasPrefix (flag_Arg args 0) ''https://''"
  shows "main_query E scopifyFlag args =
     Inl (log_Fatal ''expected server to have http:// or https:// prefix'')"
  using assms by (cases scopifyFlag) (simp_all add: main_query_def)

lemma main_query_no_theme:
  assumes "length args = 3"
    and "strings_HasPrefix (flag_Arg args 0) ''http://'' \<or> strings_HasPrefix (flag_Arg args 0) ''https://''"
    and "flag_Arg args 1 = []"
  shows "main_query E False args =
     Inl (log_Fatal ''theme argument is required (e.x. 'InspiredGitHub')'')"
  using assms by (auto simp add: main_query_def)

lemma flag_Arg_values:
  "flag_Arg [a, b, c] 0 = a" "flag_Arg [a, b, c] 1 = b" "flag_Arg [a, b, c] 2 = c"
  "flag_Arg [a, b] 0 = a" "flag_Arg [a, b] 1 = b"
  by (simp_all add: flag_Arg_def numeral_2_eq_2)

lemma main_query_highlight:
  assumes "strings_HasPrefix server ''http://'' \<or> strings_HasPrefix server ''https://''"
    and "theme \<noteq> []"
  shows "main_query E False [server, theme, file] =
     (case ioutil_ReadFile E file of
        Inl err \<Rightarrow> Inl (log_Fatal (Error_text err))
      | Inr data \<Rightarrow>
          Inr (server, \<lparr>Extension = [], Filepath = filepath_Base file, Theme = theme,
                        Scopify = False, Query.Code = data\<rparr>))"
  using assms unfolding main_query_def flag_Arg_values by auto

lemma main_query_scopify:
  assumes "strings_HasPrefix server ''http://'' \<or> strings_HasPrefix server ''https://''"
  shows "main_query E True [server, file] =
     (case ioutil_ReadFile E file of
        Inl err \<Rightarrow> Inl (log_Fatal (Error_text err))
      | Inr data \<Rightarrow>
          Inr (server, \<lparr>Extension = [], Filepath = filepath_Base file, Theme = [],
                        Scopify = True, Query.Code = data\<rparr>))"
  using assms unfolding main_query_def flag_Arg_values by auto

lemma main_query_stderr:
  assumes "length args = (if scopifyFlag then 2 else 3)"
    and "main_query E scopifyFlag args = Inl ended"
  shows "\<exists>msg. ended = log_Fatal msg"
  using assms
  by (auto simp add: main_query_def Let_def split: if_splits sum.splits)

lemma main_stderr:
  assumes "length args = (if scopifyFlag then 2 else 3)"
  shows "flag_PrintDefaults \<notin> set (stderr (main E scopifyFlag args))"
proof (cases "main_query E scopifyFlag args")
  case (Inl ended)
  with main_query_stderr [OF assms] obtain msg where "ended = log_Fatal msg"
    by blast
  with Inl show ?thesis
    by (simp add: main_def log_Fatal_def)
next
  case (Inr sq)
  obtain server query where sq: "sq = (server, query)"
    by (cases sq)
  show ?thesis
  proof (cases "Highlight E (New server) query")
    case (Inl err)
    with Inr sq show ?thesis
      by (simp add: main_def log_Fatal_def)
  next
    case resp: (Inr resp)
    from print_regions_stderr [of E query resp "Response.ScopifiedRegions resp" "[]"]
    have "flag_PrintDefaults \<notin> set (stderr (print_regions E query resp (Response.ScopifiedRegions resp) []))"
      by auto
    with Inr sq resp show ?thesis
      by (simp add: main_after_query)
  qed
qed

subsection \<open>The example run\<close>

lemma example_Highlight:
  assumes "Error r = []"
  shows "Highlight (example_env 200 r text) c q = Inr (toSuccessResponse r)"
proof -
  have st: "StatusCode \<lparr>StatusCode = 200, http_Response.Body = ''body''\<rparr> \<noteq> 400"
    by simp
  from Highlight_decoded [OF example_request example_Do st example_Decode] assms
  show ?thesis
    by simp
qed

lemma example_no_error:
  "Error (example_response [] code) = []"
  "Error ((example_response [] code)\<lparr>Data := html\<rparr>) = []"
  by (simp_all add: example_response_def)

lemma example_main_query:
  "main_query (example_env status r ''// x'') True [''http://localhost:9238'', ''dir/x.go''] =
     Inr (''http://localhost:9238'', example_query)"
  "main_query (example_env status r ''// x'') False
       [''http://localhost:9238'', ''InspiredGitHub'', ''dir/x.go''] =
     Inr (''http://localhost:9238'', example_query\<lparr>Theme := ''InspiredGitHub'', Scopify := False\<rparr>)"
proof -
  have pre: "strings_HasPrefix ''http://localhost:9238'' ''http://'' \<or>
      strings_HasPrefix ''http://localhost:9238'' ''https://''"
    by (simp add: strings_HasPrefix_def)
  have base: "filepath_Base ''dir/x.go'' = ''x.go''"
    by (simp add: filepath_Base_def)
  have rd: "ioutil_ReadFile (example_env status r ''// x'') ''dir/x.go'' = Inr ''// x''"
    by (simp add: example_env_def)
  show "main_query (example_env status r ''// x'') True [''http://localhost:9238'', ''dir/x.go''] =
     Inr (''http://localhost:9238'', example_query)"
    by (simp add: main_query_scopify [OF pre] rd base example_query_def)
  show "main_query (example_env status r ''// x'') False
       [''http://localhost:9238'', ''InspiredGitHub'', ''dir/x.go''] =
     Inr (''http://localhost:9238'', example_query\<lparr>Theme := ''InspiredGitHub'', Scopify := False\<rparr>)"
    by (simp add: main_query_highlight [OF pre] rd base example_query_def)
qed

lemma example_success:
  "Response.Data (toSuccessResponse (example_response [] [])) = []"
  "Response.ScopifiedRegions (toSuccessResponse (example_response [] [])) =
     [\<lparr>Offset = 0, Length = 3, Scopes = [1]\<rparr>]"
  "map_index (Response.ScopifiedScopeNames (toSuccessResponse (example_response [] []))) 1 = ''string''"
  by (simp_all add: toSuccessResponse_def example_response_def map_index_def)

subsection \<open>The output\<close>

text \<open>
  Claim C6 says that for every scopify response the tool prints one line per region, of
  the form: the quoted substring, followed by the names. For the code \<open>// x\<close> and a
  response with the regions (offset 0, length 3) and (offset 0, length 5), the second of
  which exceeds the four bytes of the code, the tool prints the line of the first region
  only, which reads \<open>"// " - string\<close>, and ends in a run-time panic with exit code 2.
\<close>

theorem main_region_out_of_bounds:
  "Response.Data (toSuccessResponse ((example_response [] [])
      \<lparr>ScopifiedRegions := [\<lparr>Offset = 0, Length = 3, Scopes = [1]\<rparr>,
                            \<lparr>Offset = 0, Length = 5, Scopes = [1]\<rparr>]\<rparr>)) = []
   \<and> Highlight
        (example_env 200 ((example_response [] [])
          \<lparr>ScopifiedRegions := [\<lparr>Offset = 0, Length = 3, Scopes = [1]\<rparr>,
                                \<lparr>Offset = 0, Length = 5, Scopes = [1]\<rparr>]\<rparr>) ''// x'')
        (New ''http://localhost:9238'') example_query =
       Inr (toSuccessResponse ((example_response [] [])
          \<lparr>ScopifiedRegions := [\<lparr>Offset = 0, Length = 3, Scopes = [1]\<rparr>,
                                \<lparr>Offset = 0, Length = 5, Scopes = [1]\<rparr>]\<rparr>))
   \<and> length (Response.ScopifiedRegions (toSuccessResponse ((example_response [] [])
      \<lparr>ScopifiedRegions := [\<lparr>Offset = 0, Length = 3, Scopes = [1]\<rparr>,
                            \<lparr>Offset = 0, Length = 5, Scopes = [1]\<rparr>]\<rparr>))) = 2
   \<and> main
        (example_env 200 ((example_response [] [])
          \<lparr>ScopifiedRegions := [\<lparr>Offset = 0, Length = 3, Scopes = [1]\<rparr>,
                                \<lparr>Offset = 0, Length = 5, Scopes = [1]\<rparr>]\<rparr>) ''// x'')
        True [''http://localhost:9238'', ''dir/x.go''] =
       \<lparr>stdout = [CHR 0x22] @ ''// '' @ [CHR 0x22] @ '' - string'' @ [CHR 0x0A],
        stderr = [runtime_panic], exit_code = 2\<rparr>"
proof -
  let ?r = "(example_response [] [])
      \<lparr>ScopifiedRegions := [\<lparr>Offset = 0, Length = 3, Scopes = [1]\<rparr>,
                            \<lparr>Offset = 0, Length = 5, Scopes = [1]\<rparr>]\<rparr>"
  let ?E = "example_env 200 ?r ''// x''"
  let ?regions = "[\<lparr>Offset = 0, Length = 3, Scopes = [1]\<rparr>, \<lparr>Offset = 0, Length = 5, Scopes = [1]\<rparr>]"
  have d: "Response.Data (toSuccessResponse ?r) = []"
    and rs: "Response.ScopifiedRegions (toSuccessResponse ?r) = ?regions"
    and nm: "map_index (Response.ScopifiedScopeNames (toSuccessResponse ?r)) 1 = ''string''"
    by (simp_all add: toSuccessResponse_def example_response_def map_index_def)
  have e: "Error ?r = []"
    by (simp add: example_response_def)
  have h: "Highlight ?E (New ''http://localhost:9238'') example_query = Inr (toSuccessResponse ?r)"
    by (rule example_Highlight [OF e])
  have q: "main_query ?E True [''http://localhost:9238'', ''dir/x.go''] =
      Inr (''http://localhost:9238'', example_query)"
    by (rule example_main_query(1))
  have c: "Query.Code example_query = ''// x''"
    by (simp add: example_query_def)
  have n: "int (length (Query.Code example_query)) < 2 ^ 63"
    by (simp add: c)
  have ints: "\<forall>region \<in> set ?regions. is_int (Offset region) \<and> is_int (Length region)"
    by (simp add: is_int_def)
  have f: "fmt_q ?E = (\<lambda>s. [CHR 0x22] @ s @ [CHR 0x22])"
    by (simp add: example_env_def)
  have "main ?E True [''http://localhost:9238'', ''dir/x.go''] =
      print_regions ?E example_query (toSuccessResponse ?r) ?regions []"
    using main_after_query [OF q h] d rs by simp
  also have "\<dots> = \<lparr>stdout = [CHR 0x22] @ ''// '' @ [CHR 0x22] @ '' - string'' @ [CHR 0x0A],
        stderr = [runtime_panic], exit_code = 2\<rparr>"
    unfolding print_regions_eq [OF n ints] by (simp add: c f nm)
  finally have m: "main ?E True [''http://localhost:9238'', ''dir/x.go''] =
       \<lparr>stdout = [CHR 0x22] @ ''// '' @ [CHR 0x22] @ '' - string'' @ [CHR 0x0A],
        stderr = [runtime_panic], exit_code = 2\<rparr>" .
  from rs have l: "length (Response.ScopifiedRegions (toSuccessResponse ?r)) = 2"
    by simp
  from d h l m show ?thesis
    by blast
qed

text \<open>
  Claim C6, amended. For every scopify response (an empty \<open>Data\<close>) whose regions lie
  within the submitted code, that is \<open>0 \<le> offset\<close>, \<open>0 \<le> length\<close> and \<open>offset + length\<close>
  at most the byte length of the code, the tool prints one line per region, in the
  order of the service, and nothing else: the quoted substring of the code at the byte
  offset and length of the region, then \<open> - \<close>, then the names of the scope indices of
  the region joined by spaces (an index without a name reads as the empty string), then
  a newline. For the scope names \<open>comment\<close>, \<open>string\<close>, \<open>keyword\<close>, the region with
  offset 0, length 3 and scopes \<open>[1]\<close>, and the code \<open>// x\<close>, the line is the quoted
  substring \<open>// \<close> followed by \<open> - string\<close>.
\<close>

theorem main_prints_regions:
  "(main_query E scopifyFlag args = Inr (server, query)
    \<and> Highlight E (New server) query = Inr resp
    \<and> Response.Data resp = []
    \<and> int (length (Query.Code query)) < 2 ^ 63
    \<and> (\<forall>region \<in> set (Response.ScopifiedRegions resp).
          0 \<le> Offset region \<and> 0 \<le> Length region \<and>
          Offset region + Length region \<le> int (length (Query.Code query))) \<longrightarrow>
    main E scopifyFlag args =
      \<lparr>stdout = concat (map (\<lambda>region.
           fmt_q E (take (nat (Length region)) (drop (nat (Offset region)) (Query.Code query))) @
           '' - '' @
           strings_Join
             (map (\<lambda>index. case Response.ScopifiedScopeNames resp index of
                              None \<Rightarrow> [] | Some name \<Rightarrow> name)
               (Scopes region)) '' '' @
           [CHR 0x0A])
         (Response.ScopifiedRegions resp)),
       stderr = [], exit_code = 0\<rparr>)
   \<and> (main_query E scopifyFlag args = Inr (server, query)
      \<and> Query.Code query = ''// x''
      \<and> Highlight E (New server) query = Inr (toSuccessResponse r)
      \<and> Data r = []
      \<and> ScopifiedScopeNames r = [''comment'', ''string'', ''keyword'']
      \<and> ScopifiedRegions r = [\<lparr>Offset = 0, Length = 3, Scopes = [1]\<rparr>] \<longrightarrow>
      main E scopifyFlag args =
        \<lparr>stdout = fmt_q E ''// '' @ '' - string'' @ [CHR 0x0A], stderr = [], exit_code = 0\<rparr>)"
proof -
  have general: "main E scopifyFlag args =
      \<lparr>stdout = concat (map (\<lambda>region.
           fmt_q E (take (nat (Length region)) (drop (nat (Offset region)) (Query.Code query))) @
           '' - '' @
           strings_Join
             (map (\<lambda>index. case Response.ScopifiedScopeNames resp index of
                              None \<Rightarrow> [] | Some name \<Rightarrow> name)
               (Scopes region)) '' '' @
           [CHR 0x0A])
         (Response.ScopifiedRegions resp)),
       stderr = [], exit_code = 0\<rparr>"
    if q: "main_query E scopifyFlag args = Inr (server, query)"
      and h: "Highlight E (New server) query = Inr resp"
      and d: "Response.Data resp = []"
      and n: "int (length (Query.Code query)) < 2 ^ 63"
      and b: "\<forall>region \<in> set (Response.ScopifiedRegions resp).
          0 \<le> Offset region \<and> 0 \<le> Length region \<and>
          Offset region + Length region \<le> int (length (Query.Code query))"
    for resp
  proof -
    from b n have ints: "\<forall>region \<in> set (Response.ScopifiedRegions resp).
        is_int (Offset region) \<and> is_int (Length region)"
      using in_bounds_is_int by blast
    have ix: "map_index m = (\<lambda>index. case m index of None \<Rightarrow> [] | Some name \<Rightarrow> name)" for m
      by (rule ext) (simp add: map_index_def)
    from b have tw: "takeWhile (\<lambda>region. 0 \<le> Offset region \<and> 0 \<le> Length region \<and>
          Offset region + Length region \<le> int (length (Query.Code query)))
          (Response.ScopifiedRegions resp) = Response.ScopifiedRegions resp"
      by (simp add: takeWhile_eq_all_conv)
    have "main E scopifyFlag args = print_regions E query resp (Response.ScopifiedRegions resp) []"
      using main_after_query [OF q h] d by simp
    also note print_regions_eq [OF n ints, of E resp "[]"]
    finally show ?thesis
      using b unfolding tw ix by simp
  qed
  have particular: "main E scopifyFlag args =
        \<lparr>stdout = fmt_q E ''// '' @ '' - string'' @ [CHR 0x0A], stderr = [], exit_code = 0\<rparr>"
    if q: "main_query E scopifyFlag args = Inr (server, query)"
      and c: "Query.Code query = ''// x''"
      and h: "Highlight E (New server) query = Inr (toSuccessResponse r)"
      and d: "Data r = []"
      and names: "ScopifiedScopeNames r = [''comment'', ''string'', ''keyword'']"
      and regions: "ScopifiedRegions r = [\<lparr>Offset = 0, Length = 3, Scopes = [1]\<rparr>]"
  proof -
    have d': "Response.Data (toSuccessResponse r) = []"
      using d by (simp add: toSuccessResponse_def)
    have rs: "Response.ScopifiedRegions (toSuccessResponse r) = [\<lparr>Offset = 0, Length = 3, Scopes = [1]\<rparr>]"
      using regions by (simp add: toSuccessResponse_def)
    have nm: "Response.ScopifiedScopeNames (toSuccessResponse r) 1 = Some ''string''"
      using names by (simp add: toSuccessResponse_def)
    have n: "int (length (Query.Code query)) < 2 ^ 63"
      by (simp add: c)
    have b: "\<forall>region \<in> set (Response.ScopifiedRegions (toSuccessResponse r)).
          0 \<le> Offset region \<and> 0 \<le> Length region \<and>
          Offset region + Length region \<le> int (length (Query.Code query))"
      by (simp add: rs c)
    show ?thesis
      unfolding general [OF q h d' n b] by (simp add: rs nm c)
  qed
  from general particular show ?thesis
    by blast
qed


text \<open>The theorem at the scopify run of the example, with its quoting written out.\<close>

theorem main_prints_regions_witness:
  "main_query (example_env 200 (example_response [] []) ''// x'') True
       [''http://localhost:9238'', ''dir/x.go''] = Inr (''http://localhost:9238'', example_query)
   \<and> Query.Code example_query = ''// x''
   \<and> Highlight (example_env 200 (example_response [] []) ''// x'') (New ''http://localhost:9238'')
        example_query = Inr (toSuccessResponse (example_response [] []))
   \<and> Data (example_response [] []) = []
   \<and> ScopifiedScopeNames (example_response [] []) = [''comment'', ''string'', ''keyword'']
   \<and> ScopifiedRegions (example_response [] []) = [\<lparr>Offset = 0, Length = 3, Scopes = [1]\<rparr>]
   \<and> main (example_env 200 (example_response [] []) ''// x'') True
        [''http://localhost:9238'', ''dir/x.go''] =
       \<lparr>stdout = [CHR 0x22] @ ''// '' @ [CHR 0x22] @ '' - string'' @ [CHR 0x0A],
        stderr = [], exit_code = 0\<rparr>"
proof -
  let ?E = "example_env 200 (example_response [] []) ''// x''"
  have c: "Query.Code example_query = ''// x''"
    by (simp add: example_query_def)
  have r: "Data (example_response [] []) = []"
    "ScopifiedScopeNames (example_response [] []) = [''comment'', ''string'', ''keyword'']"
    "ScopifiedRegions (example_response [] []) = [\<lparr>Offset = 0, Length = 3, Scopes = [1]\<rparr>]"
    by (simp_all add: example_response_def)
  have q: "fmt_q ?E ''// '' = [CHR 0x22] @ ''// '' @ [CHR 0x22]"
    by (simp add: example_env_def)
  from main_prints_regions [of ?E True "[''http://localhost:9238'', ''dir/x.go'']"
      "''http://localhost:9238''" example_query _ "example_response [] []"]
    example_main_query(1) [of 200 "example_response [] []"] c
    example_Highlight [OF example_no_error(1)] r
  have "main ?E True [''http://localhost:9238'', ''dir/x.go''] =
       \<lparr>stdout = fmt_q ?E ''// '' @ '' - string'' @ [CHR 0x0A], stderr = [], exit_code = 0\<rparr>"
    by blast
  then have "main ?E True [''http://localhost:9238'', ''dir/x.go''] =
       \<lparr>stdout = [CHR 0x22] @ ''// '' @ [CHR 0x22] @ '' - string'' @ [CHR 0x0A],
        stderr = [], exit_code = 0\<rparr>"
    by (simp add: q)
  with example_main_query(1) [of 200 "example_response [] []"] c
    example_Highlight [OF example_no_error(1)] r
  show ?thesis
    by blast
qed

text \<open>
  Claim C9. The loop checks no bounds: for every region it slices the submitted code at
  \<open>[offset, offset + length)\<close>, and the slice expression panics when the range does
  not fit. So the run ends without panic only if \<open>0 \<le> offset\<close> and \<open>offset + length\<close>
  does not exceed the byte length of the code, for every region; a region outside the
  bounds (a negative length included) ends the run in a panic, and regions within the
  bounds never do. The numbers are those of a 64-bit \<^verbatim>\<open>int\<close> and the sum wraps around.
\<close>

theorem print_regions_unguarded:
  assumes "int (length (Query.Code query)) < 2 ^ 63"
    and "\<forall>region \<in> set regions. is_int (Offset region) \<and> is_int (Length region)"
  shows "(exit_code (print_regions E query resp regions out) = 0 \<longrightarrow>
      (\<forall>region \<in> set regions.
          0 \<le> Offset region \<and> Offset region + Length region \<le> int (length (Query.Code query))))
    \<and> ((\<exists>region \<in> set regions.
          \<not> (0 \<le> Offset region \<and> 0 \<le> Length region \<and>
             Offset region + Length region \<le> int (length (Query.Code query)))) \<longrightarrow>
        stderr (print_regions E query resp regions out) = [runtime_panic]
        \<and> exit_code (print_regions E query resp regions out) = 2)
    \<and> ((\<forall>region \<in> set regions.
          0 \<le> Offset region \<and> 0 \<le> Length region \<and>
          Offset region + Length region \<le> int (length (Query.Code query))) \<longrightarrow>
        stderr (print_regions E query resp regions out) = []
        \<and> exit_code (print_regions E query resp regions out) = 0)"
proof -
  note eq = print_regions_eq [OF assms, of E resp out]
  have 1: "exit_code (print_regions E query resp regions out) = 0 \<longrightarrow>
      (\<forall>region \<in> set regions.
          0 \<le> Offset region \<and> Offset region + Length region \<le> int (length (Query.Code query)))"
    unfolding eq by (auto split: if_splits)
  have 2: "(\<exists>region \<in> set regions.
          \<not> (0 \<le> Offset region \<and> 0 \<le> Length region \<and>
             Offset region + Length region \<le> int (length (Query.Code query)))) \<longrightarrow>
        stderr (print_regions E query resp regions out) = [runtime_panic]
        \<and> exit_code (print_regions E query resp regions out) = 2"
    unfolding eq by auto
  have 3: "(\<forall>region \<in> set regions.
          0 \<le> Offset region \<and> 0 \<le> Length region \<and>
          Offset region + Length region \<le> int (length (Query.Code query))) \<longrightarrow>
        stderr (print_regions E query resp regions out) = []
        \<and> exit_code (print_regions E query resp regions out) = 0"
    unfolding eq by simp
  from 1 2 3 show ?thesis by blast
qed

text \<open>The theorem at the code \<open>// x\<close>: a region of length 5, a region of negative length,
  and a region within the bounds.\<close>

theorem print_regions_unguarded_witness:
  "int (length (Query.Code example_query)) < 2 ^ 63
   \<and> is_int 0 \<and> is_int 3 \<and> is_int 5 \<and> is_int (- 1)
   \<and> exit_code (print_regions (example_env 200 (example_response [] []) ''// x'') example_query
        (toSuccessResponse (example_response [] []))
        [\<lparr>Offset = 0, Length = 3, Scopes = [1]\<rparr>, \<lparr>Offset = 0, Length = 5, Scopes = [1]\<rparr>] []) = 2
   \<and> stderr (print_regions (example_env 200 (example_response [] []) ''// x'') example_query
        (toSuccessResponse (example_response [] []))
        [\<lparr>Offset = 0, Length = 3, Scopes = [1]\<rparr>, \<lparr>Offset = 0, Length = 5, Scopes = [1]\<rparr>] [])
       = [runtime_panic]
   \<and> exit_code (print_regions (example_env 200 (example_response [] []) ''// x'') example_query
        (toSuccessResponse (example_response [] []))
        [\<lparr>Offset = 3, Length = - 1, Scopes = []\<rparr>] []) = 2
   \<and> exit_code (print_regions (example_env 200 (example_response [] []) ''// x'') example_query
        (toSuccessResponse (example_response [] []))
        [\<lparr>Offset = 0, Length = 3, Scopes = [1]\<rparr>] []) = 0"
proof -
  let ?E = "example_env 200 (example_response [] []) ''// x''"
  let ?resp = "toSuccessResponse (example_response [] [])"
  have n: "int (length (Query.Code example_query)) < 2 ^ 63"
    by (simp add: example_query_def)
  have len: "int (length (Query.Code example_query)) = 4"
    by (simp add: example_query_def)
  have ints: "is_int 0" "is_int 3" "is_int 5" "is_int (- 1)"
    by (simp_all add: is_int_def)
  have a: "\<forall>region \<in> set [\<lparr>Offset = 0, Length = 3, Scopes = [1]\<rparr>, \<lparr>Offset = 0, Length = 5, Scopes = [1]\<rparr>].
      is_int (Offset region) \<and> is_int (Length region)"
    using ints by simp
  have b: "\<forall>region \<in> set [\<lparr>Offset = 3, Length = - 1, Scopes = []\<rparr>].
      is_int (Offset region) \<and> is_int (Length region)"
    using ints by simp
  have c: "\<forall>region \<in> set [\<lparr>Offset = 0, Length = 3, Scopes = [1]\<rparr>].
      is_int (Offset region) \<and> is_int (Length region)"
    using ints by simp
  from print_regions_unguarded [OF n a, of ?E ?resp "[]"]
  have 1: "stderr (print_regions ?E example_query ?resp
        [\<lparr>Offset = 0, Length = 3, Scopes = [1]\<rparr>, \<lparr>Offset = 0, Length = 5, Scopes = [1]\<rparr>] [])
       = [runtime_panic]
     \<and> exit_code (print_regions ?E example_query ?resp
        [\<lparr>Offset = 0, Length = 3, Scopes = [1]\<rparr>, \<lparr>Offset = 0, Length = 5, Scopes = [1]\<rparr>] []) = 2"
    by (simp add: len)
  from print_regions_unguarded [OF n b, of ?E ?resp "[]"]
  have 2: "exit_code (print_regions ?E example_query ?resp
        [\<lparr>Offset = 3, Length = - 1, Scopes = []\<rparr>] []) = 2"
    by (simp add: len)
  from print_regions_unguarded [OF n c, of ?E ?resp "[]"]
  have 3: "exit_code (print_regions ?E example_query ?resp
        [\<lparr>Offset = 0, Length = 3, Scopes = [1]\<rparr>] []) = 0"
    by (simp add: len)
  from n ints 1 2 3 show ?thesis
    by blast
qed

text \<open>
  Claim C10. For every successful response the tool picks its output by the \<open>Data\<close>
  field of the response and not by the mode flag, for either value of the flag: a
  non-empty \<open>Data\<close> is printed as one line, and with an empty \<open>Data\<close> the loop over the
  regions runs and no line of HTML is printed, also in highlight mode.
\<close>

theorem main_output_branch:
  assumes "main_query E scopifyFlag args = Inr (server, query)"
    and "Highlight E (New server) query = Inr resp"
  shows "(Response.Data resp \<noteq> [] \<longrightarrow>
        main E scopifyFlag args =
          \<lparr>stdout = Response.Data resp @ [CHR 0x0A], stderr = [], exit_code = 0\<rparr>)
    \<and> (Response.Data resp = [] \<longrightarrow>
        main E scopifyFlag args =
          print_regions E query resp (Response.ScopifiedRegions resp) [])
    \<and> (Response.Data resp = [] \<and> Response.ScopifiedRegions resp = [] \<longrightarrow>
        main E scopifyFlag args = \<lparr>stdout = [], stderr = [], exit_code = 0\<rparr>)"
  using main_after_query [OF assms] by simp

text \<open>The theorem at a highlight run whose response has an empty \<open>Data\<close>, and at a
  scopify run whose response has a non-empty one.\<close>

theorem main_output_branch_witness:
  "main_query (example_env 200 (example_response [] []) ''// x'') False
       [''http://localhost:9238'', ''InspiredGitHub'', ''dir/x.go''] =
     Inr (''http://localhost:9238'', example_query\<lparr>Theme := ''InspiredGitHub'', Scopify := False\<rparr>)
   \<and> Highlight (example_env 200 (example_response [] []) ''// x'') (New ''http://localhost:9238'')
        (example_query\<lparr>Theme := ''InspiredGitHub'', Scopify := False\<rparr>) =
       Inr (toSuccessResponse (example_response [] []))
   \<and> Response.Data (toSuccessResponse (example_response [] [])) = []
   \<and> main (example_env 200 (example_response [] []) ''// x'') False
        [''http://localhost:9238'', ''InspiredGitHub'', ''dir/x.go''] =
       print_regions (example_env 200 (example_response [] []) ''// x'')
         (example_query\<lparr>Theme := ''InspiredGitHub'', Scopify := False\<rparr>)
         (toSuccessResponse (example_response [] []))
         [\<lparr>Offset = 0, Length = 3, Scopes = [1]\<rparr>] []
   \<and> Response.Data (toSuccessResponse ((example_response [] [])\<lparr>Data := ''<pre>''\<rparr>)) \<noteq> []
   \<and> main (example_env 200 ((example_response [] [])\<lparr>Data := ''<pre>''\<rparr>) ''// x'') True
        [''http://localhost:9238'', ''dir/x.go''] =
       \<lparr>stdout = ''<pre>'' @ [CHR 0x0A], stderr = [], exit_code = 0\<rparr>"
proof -
  let ?E = "example_env 200 (example_response [] []) ''// x''"
  let ?q = "example_query\<lparr>Theme := ''InspiredGitHub'', Scopify := False\<rparr>"
  let ?r = "(example_response [] [])\<lparr>Data := ''<pre>''\<rparr>"
  have q: "main_query ?E False [''http://localhost:9238'', ''InspiredGitHub'', ''dir/x.go''] =
     Inr (''http://localhost:9238'', ?q)"
    by (rule example_main_query(2))
  have h: "Highlight ?E (New ''http://localhost:9238'') ?q = Inr (toSuccessResponse (example_response [] []))"
    by (rule example_Highlight [OF example_no_error(1)])
  from main_output_branch [OF q h] example_success(1,2)
  have 1: "main ?E False [''http://localhost:9238'', ''InspiredGitHub'', ''dir/x.go''] =
       print_regions ?E ?q (toSuccessResponse (example_response [] []))
         [\<lparr>Offset = 0, Length = 3, Scopes = [1]\<rparr>] []"
    by simp
  have q': "main_query (example_env 200 ?r ''// x'') True [''http://localhost:9238'', ''dir/x.go''] =
     Inr (''http://localhost:9238'', example_query)"
    by (rule example_main_query(1))
  have h': "Highlight (example_env 200 ?r ''// x'') (New ''http://localhost:9238'') example_query =
      Inr (toSuccessResponse ?r)"
    by (rule example_Highlight [OF example_no_error(2)])
  have d: "Response.Data (toSuccessResponse ?r) = ''<pre>''"
    by (simp add: toSuccessResponse_def)
  from main_output_branch [OF q' h'] d
  have 2: "main (example_env 200 ?r ''// x'') True [''http://localhost:9238'', ''dir/x.go''] =
       \<lparr>stdout = ''<pre>'' @ [CHR 0x0A], stderr = [], exit_code = 0\<rparr>"
    by simp
  from d have "Response.Data (toSuccessResponse ?r) \<noteq> []"
    by simp
  with q h example_success(1) 1 2 show ?thesis
    by blast
qed

subsection \<open>The arguments\<close>

text \<open>
  Claim C7. The tool accepts two shapes of arguments: three positional arguments
  (server, theme, file) in highlight mode and two (server, file) in scopify mode, which
  it reads into the query in that order. On any other number of arguments it prints the
  usage listing of \<^verbatim>\<open>flag.PrintDefaults\<close> and exits with code 2, with nothing on standard
  output; with the right number it never takes that exit.
\<close>

theorem main_argument_shapes:
  "(length args \<noteq> (if scopifyFlag then 2 else 3) \<longrightarrow>
      main E scopifyFlag args = \<lparr>stdout = [], stderr = [flag_PrintDefaults], exit_code = 2\<rparr>)
   \<and> (length args = (if scopifyFlag then 2 else 3) \<longrightarrow>
      flag_PrintDefaults \<notin> set (stderr (main E scopifyFlag args)))
   \<and> ((strings_HasPrefix server ''http://'' \<or> strings_HasPrefix server ''https://'') \<and>
       theme \<noteq> [] \<and> ioutil_ReadFile E file = Inr data \<longrightarrow>
      main_query E False [server, theme, file] =
        Inr (server, \<lparr>Extension = [], Filepath = filepath_Base file, Theme = theme,
                      Scopify = False, Query.Code = data\<rparr>))
   \<and> ((strings_HasPrefix server ''http://'' \<or> strings_HasPrefix server ''https://'') \<and>
       ioutil_ReadFile E file = Inr data \<longrightarrow>
      main_query E True [server, file] =
        Inr (server, \<lparr>Extension = [], Filepath = filepath_Base file, Theme = [],
                      Scopify = True, Query.Code = data\<rparr>))"
proof -
  have 1: "length args \<noteq> (if scopifyFlag then 2 else 3) \<longrightarrow>
      main E scopifyFlag args = \<lparr>stdout = [], stderr = [flag_PrintDefaults], exit_code = 2\<rparr>"
    by (simp add: main_def main_query_wrong_count)
  have 2: "length args = (if scopifyFlag then 2 else 3) \<longrightarrow>
      flag_PrintDefaults \<notin> set (stderr (main E scopifyFlag args))"
    using main_stderr by blast
  have 3: "(strings_HasPrefix server ''http://'' \<or> strings_HasPrefix server ''https://'') \<and>
       theme \<noteq> [] \<and> ioutil_ReadFile E file = Inr data \<longrightarrow>
      main_query E False [server, theme, file] =
        Inr (server, \<lparr>Extension = [], Filepath = filepath_Base file, Theme = theme,
                      Scopify = False, Query.Code = data\<rparr>)"
    by (simp add: main_query_highlight)
  have 4: "(strings_HasPrefix server ''http://'' \<or> strings_HasPrefix server ''https://'') \<and>
       ioutil_ReadFile E file = Inr data \<longrightarrow>
      main_query E True [server, file] =
        Inr (server, \<lparr>Extension = [], Filepath = filepath_Base file, Theme = [],
                      Scopify = True, Query.Code = data\<rparr>)"
    by (simp add: main_query_scopify)
  from 1 2 3 4 show ?thesis by blast
qed

text \<open>The theorem at two arguments in highlight mode, and at the two accepted shapes.\<close>

theorem main_argument_shapes_witness:
  "length [''http://localhost:9238'', ''dir/x.go''] \<noteq> (if False then 2 else 3)
   \<and> main (example_env 200 (example_response [] []) ''// x'') False
        [''http://localhost:9238'', ''dir/x.go''] =
       \<lparr>stdout = [], stderr = [flag_PrintDefaults], exit_code = 2\<rparr>
   \<and> length [''http://localhost:9238'', ''dir/x.go''] = (if True then 2 else 3)
   \<and> flag_PrintDefaults \<notin> set (stderr (main (example_env 200 (example_response [] []) ''// x'') True
        [''http://localhost:9238'', ''dir/x.go'']))
   \<and> strings_HasPrefix ''http://localhost:9238'' ''http://''
   \<and> ioutil_ReadFile (example_env 200 (example_response [] []) ''// x'') ''dir/x.go'' = Inr ''// x''
   \<and> main_query (example_env 200 (example_response [] []) ''// x'') False
        [''http://localhost:9238'', ''InspiredGitHub'', ''dir/x.go''] =
       Inr (''http://localhost:9238'',
            \<lparr>Extension = [], Filepath = ''x.go'', Theme = ''InspiredGitHub'',
             Scopify = False, Query.Code = ''// x''\<rparr>)
   \<and> main_query (example_env 200 (example_response [] []) ''// x'') True
        [''http://localhost:9238'', ''dir/x.go''] =
       Inr (''http://localhost:9238'',
            \<lparr>Extension = [], Filepath = ''x.go'', Theme = [],
             Scopify = True, Query.Code = ''// x''\<rparr>)"
proof -
  let ?E = "example_env 200 (example_response [] []) ''// x''"
  have pre: "strings_HasPrefix ''http://localhost:9238'' ''http://''"
    by (simp add: strings_HasPrefix_def)
  have rd: "ioutil_ReadFile ?E ''dir/x.go'' = Inr ''// x''"
    by (simp add: example_env_def)
  have base: "filepath_Base ''dir/x.go'' = ''x.go''"
    by (simp add: filepath_Base_def)
  have theme: "''InspiredGitHub'' \<noteq> []"
    by simp
  from main_argument_shapes [of "[''http://localhost:9238'', ''dir/x.go'']" False ?E]
  have 1: "main ?E False [''http://localhost:9238'', ''dir/x.go''] =
       \<lparr>stdout = [], stderr = [flag_PrintDefaults], exit_code = 2\<rparr>"
    by simp
  from main_argument_shapes [of "[''http://localhost:9238'', ''dir/x.go'']" True ?E]
  have 2: "flag_PrintDefaults \<notin> set (stderr (main ?E True [''http://localhost:9238'', ''dir/x.go'']))"
    by simp
  from main_argument_shapes [of _ _ ?E "''http://localhost:9238''" "''InspiredGitHub''" "''dir/x.go''" "''// x''"]
    pre rd theme
  have 3: "main_query ?E False [''http://localhost:9238'', ''InspiredGitHub'', ''dir/x.go''] =
       Inr (''http://localhost:9238'',
            \<lparr>Extension = [], Filepath = ''x.go'', Theme = ''InspiredGitHub'',
             Scopify = False, Query.Code = ''// x''\<rparr>)"
    unfolding base by blast
  from main_argument_shapes [of _ _ ?E "''http://localhost:9238''" _ "''dir/x.go''" "''// x''"]
    pre rd
  have 4: "main_query ?E True [''http://localhost:9238'', ''dir/x.go''] =
       Inr (''http://localhost:9238'',
            \<lparr>Extension = [], Filepath = ''x.go'', Theme = [],
             Scopify = True, Query.Code = ''// x''\<rparr>)"
    unfolding base by blast
  from 1 2 3 4 pre rd show ?thesis
    by simp
qed

text \<open>
  Claim C8. Whenever the server argument begins neither with \<open>http://\<close> nor with
  \<open>https://\<close>, and in highlight mode whenever the theme argument is empty, the tool
  ends with a non-zero exit code and nothing on standard output, and the run is the
  same in every environment: no file is read and no request is sent. With the right
  number of arguments the diagnostic is the one of the failed check.
\<close>

theorem main_rejects_server_and_theme:
  "(\<not> strings_HasPrefix (flag_Arg args 0) ''http://'' \<and>
    \<not> strings_HasPrefix (flag_Arg args 0) ''https://'' \<longrightarrow>
      exit_code (main E scopifyFlag args) \<noteq> 0
      \<and> stdout (main E scopifyFlag args) = []
      \<and> main E' scopifyFlag args = main E scopifyFlag args
      \<and> (length args = (if scopifyFlag then 2 else 3) \<longrightarrow>
           main E scopifyFlag args =
             log_Fatal ''expected server to have http:// or https:// prefix''))
   \<and> (\<not> scopifyFlag \<and> flag_Arg args 1 = [] \<longrightarrow>
      exit_code (main E scopifyFlag args) \<noteq> 0
      \<and> stdout (main E scopifyFlag args) = []
      \<and> main E' scopifyFlag args = main E scopifyFlag args
      \<and> (length args = 3 \<and>
          (strings_HasPrefix (flag_Arg args 0) ''http://'' \<or>
           strings_HasPrefix (flag_Arg args 0) ''https://'') \<longrightarrow>
           main E scopifyFlag args =
             log_Fatal ''theme argument is required (e.x. 'InspiredGitHub')''))"
proof (intro conjI impI)
  assume bad: "\<not> strings_HasPrefix (flag_Arg args 0) ''http://'' \<and>
    \<not> strings_HasPrefix (flag_Arg args 0) ''https://''"
  have eq: "main X scopifyFlag args =
      (if length args = (if scopifyFlag then 2 else 3)
       then log_Fatal ''expected server to have http:// or https:// prefix''
       else \<lparr>stdout = [], stderr = [flag_PrintDefaults], exit_code = 2\<rparr>)" for X
    using bad by (simp add: main_def main_query_wrong_count main_query_bad_server)
  show "exit_code (main E scopifyFlag args) \<noteq> 0"
    unfolding eq by (simp add: log_Fatal_def)
  show "stdout (main E scopifyFlag args) = []"
    unfolding eq by (simp add: log_Fatal_def)
  show "main E' scopifyFlag args = main E scopifyFlag args"
    unfolding eq ..
  show "main E scopifyFlag args = log_Fatal ''expected server to have http:// or https:// prefix''"
    if "length args = (if scopifyFlag then 2 else 3)"
    unfolding eq using that by simp
next
  assume hl: "\<not> scopifyFlag \<and> flag_Arg args 1 = []"
  have eq: "main X scopifyFlag args =
      (if length args \<noteq> 3 then \<lparr>stdout = [], stderr = [flag_PrintDefaults], exit_code = 2\<rparr>
       else if \<not> strings_HasPrefix (flag_Arg args 0) ''http://'' \<and>
               \<not> strings_HasPrefix (flag_Arg args 0) ''https://''
       then log_Fatal ''expected server to have http:// or https:// prefix''
       else log_Fatal ''theme argument is required (e.x. 'InspiredGitHub')'')" for X
    using hl
    by (auto simp add: main_def main_query_wrong_count main_query_bad_server main_query_no_theme)
  show "exit_code (main E scopifyFlag args) \<noteq> 0"
    unfolding eq by (simp add: log_Fatal_def)
  show "stdout (main E scopifyFlag args) = []"
    unfolding eq by (simp add: log_Fatal_def)
  show "main E' scopifyFlag args = main E scopifyFlag args"
    unfolding eq ..
  show "main E scopifyFlag args = log_Fatal ''theme argument is required (e.x. 'InspiredGitHub')''"
    if "length args = 3 \<and>
          (strings_HasPrefix (flag_Arg args 0) ''http://'' \<or>
           strings_HasPrefix (flag_Arg args 0) ''https://'')"
    unfolding eq using that by auto
qed

text \<open>The theorem at a server without scheme and at an empty theme.\<close>

theorem main_rejects_server_and_theme_witness:
  "\<not> strings_HasPrefix (flag_Arg [''localhost:9238'', ''InspiredGitHub'', ''dir/x.go''] 0) ''http://''
   \<and> \<not> strings_HasPrefix (flag_Arg [''localhost:9238'', ''InspiredGitHub'', ''dir/x.go''] 0) ''https://''
   \<and> main (example_env 200 (example_response [] []) ''// x'') False
        [''localhost:9238'', ''InspiredGitHub'', ''dir/x.go''] =
       \<lparr>stdout = [], stderr = [log_Print ''expected server to have http:// or https:// prefix''],
        exit_code = 1\<rparr>
   \<and> flag_Arg [''https://localhost:9238'', [], ''dir/x.go''] 1 = []
   \<and> strings_HasPrefix (flag_Arg [''https://localhost:9238'', [], ''dir/x.go''] 0) ''https://''
   \<and> main (example_env 200 (example_response [] []) ''// x'') False
        [''https://localhost:9238'', [], ''dir/x.go''] =
       \<lparr>stdout = [], stderr = [log_Print ''theme argument is required (e.x. 'InspiredGitHub')''],
        exit_code = 1\<rparr>"
proof -
  let ?E = "example_env 200 (example_response [] []) ''// x''"
  have a: "\<not> strings_HasPrefix (flag_Arg [''localhost:9238'', ''InspiredGitHub'', ''dir/x.go''] 0) ''http://''"
    "\<not> strings_HasPrefix (flag_Arg [''localhost:9238'', ''InspiredGitHub'', ''dir/x.go''] 0) ''https://''"
    by (simp_all add: flag_Arg_def strings_HasPrefix_def)
  have b: "flag_Arg [''https://localhost:9238'', [], ''dir/x.go''] 1 = []"
    "strings_HasPrefix (flag_Arg [''https://localhost:9238'', [], ''dir/x.go''] 0) ''https://''"
    by (simp_all add: flag_Arg_def strings_HasPrefix_def)
  from main_rejects_server_and_theme
    [of "[''localhost:9238'', ''InspiredGitHub'', ''dir/x.go'']" ?E False] a
  have 1: "main ?E False [''localhost:9238'', ''InspiredGitHub'', ''dir/x.go''] =
       \<lparr>stdout = [], stderr = [log_Print ''expected server to have http:// or https:// prefix''],
        exit_code = 1\<rparr>"
    by (simp add: log_Fatal_def)
  from main_rejects_server_and_theme
    [of "[''https://localhost:9238'', [], ''dir/x.go'']" ?E False] b
  have 2: "main ?E False [''https://localhost:9238'', [], ''dir/x.go''] =
       \<lparr>stdout = [], stderr = [log_Print ''theme argument is required (e.x. 'InspiredGitHub')''],
        exit_code = 1\<rparr>"
    by (simp add: log_Fatal_def)
  from a b 1 2 show ?thesis
    by blast
qed

end
